theory Spec2Isabelle
  imports
    Main
    "HOL-Library.Char_ord"
    "HOL-Library.List_Lexorder"
    "HOL-Library.Multiset"
    "HOL-Library.Word"
begin

section \<open>Data model (main.go, lines 23--45)\<close>

text \<open>
  A Go \<open>string\<close> is a sequence of bytes, and so is \<^typ>\<open>string\<close> here. With
  \<open>Char_ord\<close> and \<open>List_Lexorder\<close> the order \<open><\<close> on \<^typ>\<open>string\<close> is the
  bytewise lexicographic order, which is what Go's \<open><\<close> on strings computes.

  \<open>RegexConfig\<close> and \<open>Invoice\<close> have the same field names in the source. The fields
  of \<open>RegexConfig\<close> carry the prefix \<open>cfg\<close> here, so that both records can be used
  unqualified.
\<close>

record RegexConfig =
  cfgFatura :: string
  cfgClienteMatricula :: string
  cfgDataInicio :: string
  cfgValor :: string
  cfgPrazoMeses :: string

record Invoice =
  Fatura :: string
  ClienteMatricula :: string
  DataInicio :: string
  Valor :: string
  PrazoMeses :: string

section \<open>The standard-library string functions used by the comparator\<close>

subsection \<open>\<open>strings.Split\<close> with a one-byte separator\<close>

text \<open>
  \<open>strings.Split(s, "/")\<close> cuts \<open>s\<close> at every separator and returns all the pieces,
  empty ones included; the empty string gives one empty piece.
\<close>

fun Split :: "string \<Rightarrow> char \<Rightarrow> string list" where
  "Split [] sep = [[]]"
| "Split (c # cs) sep =
     (if c = sep then [] # Split cs sep
      else (case Split cs sep of
              [] \<Rightarrow> [[c]]
            | p # ps \<Rightarrow> (c # p) # ps))"

subsection \<open>\<open>strings.TrimSpace\<close>\<close>

text \<open>
  \<open>strings.TrimSpace\<close> removes the leading and the trailing white space runes of a
  string, as \<open>unicode.IsSpace\<close> defines them. On bytes these are the six ASCII
  characters tab, line feed, vertical tab, form feed, carriage return and space, and the
  UTF-8 encodings of U+0085, U+00A0, U+1680, U+2000 to U+200A, U+2028, U+2029, U+202F,
  U+205F and U+3000.
\<close>

definition space_runes :: "string list" where
  "space_runes =
     [[CHR 0x09], [CHR 0x0A], [CHR 0x0B], [CHR 0x0C], [CHR 0x0D], [CHR 0x20],
      [CHR 0xC2, CHR 0x85], [CHR 0xC2, CHR 0xA0],
      [CHR 0xE1, CHR 0x9A, CHR 0x80],
      [CHR 0xE2, CHR 0x80, CHR 0x80], [CHR 0xE2, CHR 0x80, CHR 0x81],
      [CHR 0xE2, CHR 0x80, CHR 0x82], [CHR 0xE2, CHR 0x80, CHR 0x83],
      [CHR 0xE2, CHR 0x80, CHR 0x84], [CHR 0xE2, CHR 0x80, CHR 0x85],
      [CHR 0xE2, CHR 0x80, CHR 0x86], [CHR 0xE2, CHR 0x80, CHR 0x87],
      [CHR 0xE2, CHR 0x80, CHR 0x88], [CHR 0xE2, CHR 0x80, CHR 0x89],
      [CHR 0xE2, CHR 0x80, CHR 0x8A],
      [CHR 0xE2, CHR 0x80, CHR 0xA8], [CHR 0xE2, CHR 0x80, CHR 0xA9],
      [CHR 0xE2, CHR 0x80, CHR 0xAF],
      [CHR 0xE2, CHR 0x81, CHR 0x9F],
      [CHR 0xE3, CHR 0x80, CHR 0x80]]"

text \<open>The number of bytes of the first of the given runes that \<open>s\<close> starts with, or 0.\<close>

fun rune_at_start :: "string list \<Rightarrow> string \<Rightarrow> nat" where
  "rune_at_start [] s = 0"
| "rune_at_start (r # rs) s =
     (if r \<noteq> [] \<and> take (length r) s = r then length r else rune_at_start rs s)"

function trim_runes :: "string list \<Rightarrow> string \<Rightarrow> string" where
  "trim_runes rs s =
     (if rune_at_start rs s = 0 then s else trim_runes rs (drop (rune_at_start rs s) s))"
  by pat_completeness auto
termination
proof (relation "measure (\<lambda>(rs, s). length s)")
  show "wf (measure (\<lambda>(rs, s). length s))" by simp
next
  fix rs :: "string list" and s :: string
  assume pos: "rune_at_start rs s \<noteq> 0"
  have "rune_at_start rs s \<le> length s"
  proof (induction rs)
    case Nil
    show ?case by simp
  next
    case (Cons r rs)
    have "length r \<le> length s" if "take (length r) s = r"
    proof -
      have "length (take (length r) s) = length r" using that by (rule arg_cong)
      then show ?thesis by simp
    qed
    with Cons show ?case by simp
  qed
  with pos show "((rs, drop (rune_at_start rs s) s), (rs, s)) \<in> measure (\<lambda>(rs, s). length s)"
    by simp
qed

declare trim_runes.simps [simp del]

definition TrimSpace :: "string \<Rightarrow> string" where
  "TrimSpace s = rev (trim_runes (map rev space_runes) (rev (trim_runes space_runes s)))"

subsection \<open>\<open>strconv.Atoi\<close>\<close>

text \<open>
  \<open>strconv.Atoi\<close> accepts an optional sign followed by at least one decimal digit and
  nothing else, and fails when the value does not fit the type \<open>int\<close>. The model takes
  \<open>int\<close> to be 64 bits wide, as it is on every 64-bit platform. \<open>None\<close> stands for a
  non-nil error.
\<close>

definition isDigit :: "char \<Rightarrow> bool" where
  "isDigit ch = (CHR ''0'' \<le> ch \<and> ch \<le> CHR ''9'')"

definition digitsValue :: "string \<Rightarrow> int" where
  "digitsValue ds = foldl (\<lambda>n ch. n * 10 + (of_char ch - 48)) 0 ds"

definition Atoi :: "string \<Rightarrow> int option" where
  "Atoi s =
     (let neg = (s \<noteq> [] \<and> hd s = CHR ''-'');
          ds = (if s \<noteq> [] \<and> (hd s = CHR ''-'' \<or> hd s = CHR ''+'') then tl s else s)
      in if ds \<noteq> [] \<and> list_all isDigit ds
         then (let n = (if neg then - digitsValue ds else digitsValue ds)
               in if - (2 ^ 63) \<le> n \<and> n < 2 ^ 63 then Some n else None)
         else None)"

section \<open>The comparator of the collator (main.go, lines 109--128)\<close>

definition less_fatura :: "string \<Rightarrow> string \<Rightarrow> bool" where
  "less_fatura faturaI faturaJ =
     (let partsI = Split faturaI (CHR ''/'');
          partsJ = Split faturaJ (CHR ''/'')
      in if length partsI < 2 \<or> length partsJ < 2 then faturaI < faturaJ
         else (case (Atoi (TrimSpace (partsI ! 1)), Atoi (TrimSpace (partsJ ! 1))) of
                 (Some numI, Some numJ) \<Rightarrow> numI < numJ
               | _ \<Rightarrow> faturaI < faturaJ))"

definition invoice_less :: "Invoice \<Rightarrow> Invoice \<Rightarrow> bool" where
  "invoice_less a b = less_fatura (Fatura a) (Fatura b)"

section \<open>\<open>sort.Slice\<close>\<close>

text \<open>
  Package \<open>sort\<close> is not part of the program, and its algorithm depends on the release
  of Go; the program is built with Go 1.16 or a later one. In all of these releases a
  slice of at most 6 elements is sorted by insertion sort alone: for \<open>i = 1, 2, ...\<close>
  the element at \<open>i\<close> is swapped with its left neighbour as long as it is less than
  that neighbour. (Before Go 1.19 a slice of at most 12 elements goes through one pass
  that compares the elements 6 places apart, which does nothing on fewer than 7
  elements, and then through insertion sort; since Go 1.19 a slice of at most 12
  elements is sorted by insertion sort.) \<open>insert_left lessFn x ps\<close> is the inner loop
  of insertion sort. The part of the slice that is already processed is held in
  reverse, so that the left neighbour of the moving element is the head of \<open>ps\<close>.

  What the library does with a longer slice (quicksort with a fallback to heap sort
  before Go 1.19, pattern-defeating quicksort since) enters the model as the parameter
  \<open>long\<close>, a function: the library is taken to return on every slice, whatever
  \<open>less\<close> is.
\<close>

fun insert_left :: "('a \<Rightarrow> 'a \<Rightarrow> bool) \<Rightarrow> 'a \<Rightarrow> 'a list \<Rightarrow> 'a list" where
  "insert_left lessFn x [] = [x]"
| "insert_left lessFn x (p # ps) =
     (if lessFn x p then p # insert_left lessFn x ps else x # p # ps)"

definition insertionSort :: "('a \<Rightarrow> 'a \<Rightarrow> bool) \<Rightarrow> 'a list \<Rightarrow> 'a list" where
  "insertionSort lessFn xs = rev (foldl (\<lambda>ps x. insert_left lessFn x ps) [] xs)"

type_synonym 'a sorter = "('a \<Rightarrow> 'a \<Rightarrow> bool) \<Rightarrow> 'a list \<Rightarrow> 'a list"

definition sort_Slice :: "'a sorter \<Rightarrow> ('a \<Rightarrow> 'a \<Rightarrow> bool) \<Rightarrow> 'a list \<Rightarrow> 'a list" where
  "sort_Slice long lessFn xs =
     (if length xs \<le> 6 then insertionSort lessFn xs else long lessFn xs)"

definition sort_invoices :: "Invoice sorter \<Rightarrow> Invoice list \<Rightarrow> Invoice list" where
  "sort_invoices long invoices = sort_Slice long invoice_less invoices"

text \<open>
  What package \<open>sort\<close> documents of \<open>Slice\<close> in every release: the slice is rearranged,
  and it is in order afterwards, no element being less than an element before it, when
  \<open>less\<close> is a transitive ordering of its elements. (The sort is not guaranteed to be
  stable.) A transitive ordering is what the package requires of \<open>less\<close>: no element
  is less than itself; if \<open>a\<close> is less than \<open>b\<close> and \<open>b\<close> less than \<open>c\<close>, then
  \<open>a\<close> is less than \<open>c\<close>; and if \<open>a\<close> is not less than \<open>b\<close> and \<open>b\<close> not less
  than \<open>c\<close>, then \<open>a\<close> is not less than \<open>c\<close>. The properties of the collator on
  slices of more than 6 elements are proved for every \<open>long\<close> that keeps to it.
\<close>

definition transitive_ordering :: "('a \<Rightarrow> 'a \<Rightarrow> bool) \<Rightarrow> 'a set \<Rightarrow> bool" where
  "transitive_ordering lessFn A \<longleftrightarrow>
     (\<forall>a\<in>A. \<not> lessFn a a)
     \<and> (\<forall>a\<in>A. \<forall>b\<in>A. \<forall>c\<in>A.
          (lessFn a b \<and> lessFn b c \<longrightarrow> lessFn a c)
          \<and> (\<not> lessFn a b \<and> \<not> lessFn b c \<longrightarrow> \<not> lessFn a c))"

definition sorts :: "'a sorter \<Rightarrow> bool" where
  "sorts srt \<longleftrightarrow>
     (\<forall>lessFn xs. mset (srt lessFn xs) = mset xs
        \<and> (transitive_ordering lessFn (set xs)
             \<longrightarrow> sorted_wrt (\<lambda>a b. \<not> lessFn b a) (srt lessFn xs)))"

text \<open>
  The comparator is a strict total order on a batch of records when, in addition, it
  orders every two different records of the batch.
\<close>

definition total_ordering :: "('a \<Rightarrow> 'a \<Rightarrow> bool) \<Rightarrow> 'a set \<Rightarrow> bool" where
  "total_ordering lessFn A \<longleftrightarrow>
     (\<forall>a\<in>A. \<not> lessFn a a)
     \<and> (\<forall>a\<in>A. \<forall>b\<in>A. \<forall>c\<in>A. lessFn a b \<and> lessFn b c \<longrightarrow> lessFn a c)
     \<and> (\<forall>a\<in>A. \<forall>b\<in>A. a \<noteq> b \<longrightarrow> lessFn a b \<or> lessFn b a)"

subsection \<open>The ordering rule as the specification words it\<close>

text \<open>
  The specification describes the comparator through a numeric suffix: the second
  segment of the invoice id when it is split at \<open>/\<close>, parsed as an integer. Parsing is
  what the code does to the segment: surrounding white space is trimmed and
  \<open>strconv.Atoi\<close> reads the rest. Two ids are compared by their numbers when both have
  one, and as strings otherwise.
\<close>

definition second_segment :: "string \<Rightarrow> string option" where
  "second_segment s =
     (case Split s (CHR ''/'') of
        p # q # rest \<Rightarrow> Some q
      | _ \<Rightarrow> None)"

definition suffix_number :: "string \<Rightarrow> int option" where
  "suffix_number s =
     (case second_segment s of
        None \<Rightarrow> None
      | Some seg \<Rightarrow> Atoi (TrimSpace seg))"

definition spec_less :: "string \<Rightarrow> string \<Rightarrow> bool" where
  "spec_less a b =
     (case (suffix_number a, suffix_number b) of
        (Some m, Some n) \<Rightarrow> m < n
      | _ \<Rightarrow> a < b)"

section \<open>The field extractor (main.go, lines 166--209)\<close>

subsection \<open>The regular-expression library\<close>

text \<open>
  Package \<open>regexp\<close> is not part of the program; it enters the model as a parameter
  \<open>Compile\<close>, which maps a pattern to \<open>None\<close> when the pattern is syntactically invalid
  and to a compiled expression otherwise. A compiled expression is represented by its
  matches in a text: the list that \<open>FindAllStringSubmatch(text, -1)\<close> returns, the
  successive matches from left to right, each one the matched text followed by the text
  of every capture group (empty for a group that took no part in the match).
  \<open>FindStringSubmatch\<close> returns the leftmost match, or \<open>nil\<close> (the empty list) when
  there is none. \<open>MustCompile\<close> panics where \<open>Compile\<close> fails.

  The program recovers from no panic. Its panics are those of \<open>MustCompile\<close>, with the
  pattern, and those that the PDF library raises (see \<open>readPdf\<close> below), with their
  message.
\<close>

type_synonym regexp = "string \<Rightarrow> string list list"

datatype panic = MustCompilePanic string | PdfPanic string

definition FindStringSubmatch :: "regexp \<Rightarrow> string \<Rightarrow> string list" where
  "FindStringSubmatch re text = (case re text of [] \<Rightarrow> [] | m # later \<Rightarrow> m)"

definition MustCompile :: "(string \<Rightarrow> regexp option) \<Rightarrow> string \<Rightarrow> panic + regexp" where
  "MustCompile Compile str =
     (case Compile str of
        None \<Rightarrow> Inl (MustCompilePanic str)
      | Some re \<Rightarrow> Inr re)"

text \<open>
  \<open>reValorCleanerDot\<close> is the pattern \<open>\.\<close>, which matches exactly the one-byte
  string \<open>.\<close>; its \<open>ReplaceAllString\<close> puts the replacement in the place of every
  dot. (The replacement is the empty string in the program, so that no \<open>$\<close> expansion
  occurs.)
\<close>

definition reValorCleanerDot_ReplaceAllString :: "string \<Rightarrow> string \<Rightarrow> string" where
  "reValorCleanerDot_ReplaceAllString src repl =
     concat (map (\<lambda>c. if c = CHR ''.'' then repl else [c]) src)"

text \<open>The fixed registration-code pattern of line 171; \<open>CHR 0x5C\<close> is the backslash.\<close>

definition matricula_pattern :: string where
  "matricula_pattern =
     ''matricula'' @ [CHR 0x5C] @ ''s+([A-Z0-9]{2}-[A-Z0-9]{2}-[A-Z0-9]{2})''"

subsection \<open>\<open>parseInvoice\<close>\<close>

text \<open>Lines 176--208: the five fields, from the six compiled expressions.\<close>

definition extractFields ::
  "regexp \<Rightarrow> regexp \<Rightarrow> regexp \<Rightarrow> regexp \<Rightarrow> regexp \<Rightarrow> regexp \<Rightarrow> string \<Rightarrow> Invoice" where
  "extractFields reFatura reCliente reMatricula reDataInicio reValor rePrazoMeses text =
     (let invoice = \<lparr>Fatura = [], ClienteMatricula = [], DataInicio = [], Valor = [],
                      PrazoMeses = []\<rparr>;
          match = FindStringSubmatch reFatura text;
          invoice = (if length match > 1 then invoice\<lparr>Fatura := match ! 1\<rparr> else invoice);
          clienteMatch = FindStringSubmatch reCliente text;
          matriculaMatch = FindStringSubmatch reMatricula text;
          invoice =
            (if length clienteMatch > 1 \<and> length matriculaMatch > 1
               then invoice\<lparr>ClienteMatricula := clienteMatch ! 1 @ ''/'' @ matriculaMatch ! 1\<rparr>
             else if length clienteMatch > 1
               then invoice\<lparr>ClienteMatricula := clienteMatch ! 1\<rparr>
             else if length matriculaMatch > 1
               then invoice\<lparr>ClienteMatricula := matriculaMatch ! 1\<rparr>
             else invoice);
          match = FindStringSubmatch reDataInicio text;
          invoice =
            (if length match > 3
               then invoice\<lparr>DataInicio := match ! 3 @ ''-'' @ match ! 2 @ ''-'' @ match ! 1\<rparr>
             else invoice);
          match = FindStringSubmatch reValor text;
          invoice =
            (if length match > 1
               then (let cleanedValor = match ! 1;
                         cleanedValor = reValorCleanerDot_ReplaceAllString cleanedValor []
                     in invoice\<lparr>Valor := cleanedValor\<rparr>)
             else invoice);
          match = FindStringSubmatch rePrazoMeses text;
          invoice = (if length match > 1 then invoice\<lparr>PrazoMeses := match ! 1\<rparr> else invoice)
      in invoice)"

text \<open>
  Lines 169--174 compile the six patterns on every call, in this order; the first one
  that does not compile panics.
\<close>

definition parseInvoice ::
  "(string \<Rightarrow> regexp option) \<Rightarrow> string \<Rightarrow> RegexConfig \<Rightarrow> panic + Invoice" where
  "parseInvoice Compile text regexCfg =
     (case MustCompile Compile (cfgFatura regexCfg) of Inl p \<Rightarrow> Inl p | Inr reFatura \<Rightarrow>
      (case MustCompile Compile (cfgClienteMatricula regexCfg) of Inl p \<Rightarrow> Inl p | Inr reCliente \<Rightarrow>
       (case MustCompile Compile matricula_pattern of Inl p \<Rightarrow> Inl p | Inr reMatricula \<Rightarrow>
        (case MustCompile Compile (cfgDataInicio regexCfg) of Inl p \<Rightarrow> Inl p | Inr reDataInicio \<Rightarrow>
         (case MustCompile Compile (cfgValor regexCfg) of Inl p \<Rightarrow> Inl p | Inr reValor \<Rightarrow>
          (case MustCompile Compile (cfgPrazoMeses regexCfg) of Inl p \<Rightarrow> Inl p | Inr rePrazoMeses \<Rightarrow>
             Inr (extractFields reFatura reCliente reMatricula reDataInicio reValor
                    rePrazoMeses text)))))))"


section \<open>Loading the rule set (main.go, lines 138--149)\<close>

subsection \<open>\<open>json.Unmarshal\<close> into a \<open>RegexConfig\<close>\<close>

text \<open>
  Package \<open>encoding/json\<close> is not part of the program either. Its syntax layer is a
  parameter \<open>decodeJSON\<close>, which maps the bytes of a file to \<open>None\<close> when they are not
  well-formed JSON and to the value they denote otherwise, the members of an object in
  the order of the text. What \<open>Unmarshal\<close> does with that value for a target of type
  \<open>*RegexConfig\<close> is written out:
  \<^item> \<open>null\<close> leaves the target as it is;
  \<^item> an object is read member by member: a member whose key names no field is skipped,
    a string value is stored in the field, \<open>null\<close> leaves the field as it is, and any
    other value is a type error, of which the first is returned after all members have
    been read;
  \<^item> every other value is a type error.

  A key names the field whose tag it equals, or else the field whose tag it equals up to
  case folding. \<open>foldName\<close> maps the ASCII letters to upper case, and so does it map
  the two other runes that fold to an ASCII letter, U+017F to \<open>S\<close> and U+212A to \<open>K\<close>.
\<close>

datatype json =
  JNull | JBool bool | JNumber string | JString string
  | JArray "json list" | JObject "(string \<times> json) list"

datatype error =
  OsError string | SyntaxError | UnmarshalTypeError string | PdfError string
  | Wrapped string error

fun foldName :: "string \<Rightarrow> string" where
  "foldName [] = []"
| "foldName (c # cs) =
     (if CHR ''a'' \<le> c \<and> c \<le> CHR ''z'' then char_of (of_char c - (32::nat)) # foldName cs
      else if c = CHR 0xC5 \<and> take 1 cs = [CHR 0xBF] then CHR ''S'' # foldName (drop 1 cs)
      else if c = CHR 0xE2 \<and> take 2 cs = [CHR 0x84, CHR 0xAA]
        then CHR ''K'' # foldName (drop 2 cs)
      else c # foldName cs)"

text \<open>The five fields of \<open>RegexConfig\<close> with their \<open>json\<close> tags (lines 31--37).\<close>

datatype field =
  Field_Fatura | Field_ClienteMatricula | Field_DataInicio | Field_Valor | Field_PrazoMeses

fun tag :: "field \<Rightarrow> string" where
  "tag Field_Fatura = ''fatura''"
| "tag Field_ClienteMatricula = ''cliente_matricula''"
| "tag Field_DataInicio = ''data_inicio''"
| "tag Field_Valor = ''valor''"
| "tag Field_PrazoMeses = ''prazo_meses''"

fun setField :: "field \<Rightarrow> string \<Rightarrow> RegexConfig \<Rightarrow> RegexConfig" where
  "setField Field_Fatura v config = config\<lparr>cfgFatura := v\<rparr>"
| "setField Field_ClienteMatricula v config = config\<lparr>cfgClienteMatricula := v\<rparr>"
| "setField Field_DataInicio v config = config\<lparr>cfgDataInicio := v\<rparr>"
| "setField Field_Valor v config = config\<lparr>cfgValor := v\<rparr>"
| "setField Field_PrazoMeses v config = config\<lparr>cfgPrazoMeses := v\<rparr>"

fun getField :: "field \<Rightarrow> RegexConfig \<Rightarrow> string" where
  "getField Field_Fatura config = cfgFatura config"
| "getField Field_ClienteMatricula config = cfgClienteMatricula config"
| "getField Field_DataInicio config = cfgDataInicio config"
| "getField Field_Valor config = cfgValor config"
| "getField Field_PrazoMeses config = cfgPrazoMeses config"

definition RegexConfig_fields :: "field list" where
  "RegexConfig_fields =
     [Field_Fatura, Field_ClienteMatricula, Field_DataInicio, Field_Valor, Field_PrazoMeses]"

definition findField :: "string \<Rightarrow> field option" where
  "findField key =
     (case find (\<lambda>f. tag f = key) RegexConfig_fields of
        Some f \<Rightarrow> Some f
      | None \<Rightarrow> find (\<lambda>f. foldName (tag f) = foldName key) RegexConfig_fields)"

fun decodeObject ::
  "(string \<times> json) list \<Rightarrow> RegexConfig \<Rightarrow> error option \<Rightarrow> RegexConfig \<times> error option" where
  "decodeObject [] config saved = (config, saved)"
| "decodeObject ((key, v) # members) config saved =
     (case findField key of
        None \<Rightarrow> decodeObject members config saved
      | Some f \<Rightarrow>
          (case v of
             JString str \<Rightarrow> decodeObject members (setField f str config) saved
           | JNull \<Rightarrow> decodeObject members config saved
           | _ \<Rightarrow>
               decodeObject members config
                 (case saved of None \<Rightarrow> Some (UnmarshalTypeError key) | Some e \<Rightarrow> Some e)))"

definition Unmarshal ::
  "(string \<Rightarrow> json option) \<Rightarrow> string \<Rightarrow> RegexConfig \<Rightarrow> error + RegexConfig" where
  "Unmarshal decodeJSON data config =
     (case decodeJSON data of
        None \<Rightarrow> Inl SyntaxError
      | Some JNull \<Rightarrow> Inr config
      | Some (JObject members) \<Rightarrow>
          (case decodeObject members config None of
             (config', None) \<Rightarrow> Inr config'
           | (config', Some e) \<Rightarrow> Inl e)
      | Some other \<Rightarrow> Inl (UnmarshalTypeError []))"

subsection \<open>\<open>loadRegexConfig\<close>\<close>

text \<open>
  \<open>os.ReadFile\<close> is the parameter \<open>ReadFile\<close>. The function returns the zero
  configuration filled in by \<open>Unmarshal\<close>; it compiles no pattern.
\<close>

definition loadRegexConfig ::
  "(string \<Rightarrow> error + string) \<Rightarrow> (string \<Rightarrow> json option) \<Rightarrow> string \<Rightarrow> error + RegexConfig" where
  "loadRegexConfig ReadFile decodeJSON filePath =
     (let config = \<lparr>cfgFatura = [], cfgClienteMatricula = [], cfgDataInicio = [],
                     cfgValor = [], cfgPrazoMeses = []\<rparr>
      in case ReadFile filePath of
           Inl err \<Rightarrow> Inl (Wrapped ''reading regex config file'' err)
         | Inr data \<Rightarrow>
             (case Unmarshal decodeJSON data config of
                Inl err \<Rightarrow> Inl (Wrapped ''unmarshalling regex config'' err)
              | Inr config' \<Rightarrow> Inr config'))"

text \<open>
  An object omits a field when none of its keys names the field. A member is well
  typed for the target when its key names no field or its value is a string or
  \<open>null\<close>.
\<close>

definition omits :: "(string \<times> json) list \<Rightarrow> field \<Rightarrow> bool" where
  "omits members f = list_all (\<lambda>(key, v). findField key \<noteq> Some f) members"

fun isStringOrNull :: "json \<Rightarrow> bool" where
  "isStringOrNull (JString str) = True"
| "isStringOrNull JNull = True"
| "isStringOrNull v = False"

definition wellTyped :: "(string \<times> json) list \<Rightarrow> bool" where
  "wellTyped members = list_all (\<lambda>(key, v). findField key = None \<or> isStringOrNull v) members"

section \<open>The worker pool (main.go, lines 83--100 and 151--164)\<close>

subsection \<open>\<open>readPdf\<close> (lines 211--224)\<close>

text \<open>
  The PDF library is a pair of parameters: \<open>pdf_Open\<close> opens a path and
  \<open>GetPlainText\<close> gives the reader of the plain text, represented by the bytes that
  \<open>buf.ReadFrom\<close> takes from it (the error of \<open>ReadFrom\<close> is dropped by the code).
  Each of the two calls returns its value (\<open>Inr (Inr v)\<close>), returns an error
  (\<open>Inr (Inl err)\<close>) or panics (\<open>Inl p\<close>): the library panics on some malformed
  files, and \<open>readPdf\<close> has no \<open>recover\<close>, so that the panic leaves \<open>readPdf\<close> and
  the worker that called it. A panic while the reader is read counts as a panic of
  \<open>GetPlainText\<close>. The record \<open>extern\<close> holds the two parameters together with
  \<open>regexp.Compile\<close>.
\<close>

record 'r extern =
  regexp_Compile :: "string \<Rightarrow> regexp option"
  pdf_Open :: "string \<Rightarrow> panic + error + 'r"
  GetPlainText :: "'r \<Rightarrow> panic + error + string"

definition readPdf :: "'r extern \<Rightarrow> string \<Rightarrow> panic + error + string" where
  "readPdf ext path =
     (case pdf_Open ext path of
        Inl p \<Rightarrow> Inl p
      | Inr (Inl err) \<Rightarrow> Inr (Inl err)
      | Inr (Inr r) \<Rightarrow>
          (case GetPlainText ext r of
             Inl p \<Rightarrow> Inl p
           | Inr (Inl err) \<Rightarrow> Inr (Inl err)
           | Inr (Inr b) \<Rightarrow> Inr (Inr b)))"

subsection \<open>The pool as a transition system\<close>

text \<open>
  The main goroutine and the workers communicate through the two channels, the two
  atomic counters and the wait group only, and Go executes these operations in one
  total order. A state of the pool holds what they share and, for every worker, the
  point of its loop at which it stands:
  \<^item> \<open>Receiving\<close>: at \<open>for job := range jobs\<close> (line 153);
  \<^item> \<open>Holding job\<close>: has received \<open>job\<close>, before \<open>readPdf\<close> (line 154);
  \<^item> \<open>Counting\<close>: has sent its invoice to \<open>results\<close> (line 161), before the
    increment of \<open>totalProcessed\<close> (line 162);
  \<^item> \<open>Exited\<close>: has left the loop and called \<open>wg.Done\<close>;
  \<^item> \<open>Panicked\<close>: \<open>readPdf\<close> or \<open>parseInvoice\<close> has panicked in it, and the
    deferred \<open>wg.Done\<close> of line 152 has run.

  Both channels have room for \<open>len(files)\<close> values, so that no send blocks; they are
  lists here, the oldest value first. \<open>files_left\<close> are the files that the loop of
  lines 94--96 has not sent yet, and \<open>joined\<close> says that the main goroutine is past
  \<open>wg.Wait\<close> (line 99). \<open>panicked\<close> lists the panics of the workers. A panic
  ends the process, with the exit status 2, but not at once: the deferred call runs
  first, and the other goroutines move on until the runtime has printed the panic. The
  end of the process is the end of the schedule. \<open>claimed\<close> is a history variable,
  which the program does not have: the jobs in the order in which the workers received
  them.
\<close>

datatype wstate = Receiving | Holding string | Counting | Exited | Panicked

text \<open>The workers that have called \<open>wg.Done\<close>.\<close>

fun wg_done :: "wstate \<Rightarrow> bool" where
  "wg_done Exited = True"
| "wg_done Panicked = True"
| "wg_done w = False"

record pool =
  files_left :: "string list"
  jobs :: "string list"
  jobs_closed :: bool
  results :: "Invoice list"
  totalProcessed :: "64 word"
  totalErrors :: "64 word"
  workers :: "wstate list"
  panicked :: "panic list"
  joined :: bool
  claimed :: "string list"

datatype actor = MainThread | Worker nat

text \<open>Lines 83--92: \<open>for i := 0; i < cfg.NumWorkers; i++\<close> starts no worker when \<open>NumWorkers \<le> 0\<close>.\<close>

definition start :: "int \<Rightarrow> string list \<Rightarrow> pool" where
  "start NumWorkers files =
     \<lparr>files_left = files, jobs = [], jobs_closed = False, results = [],
      totalProcessed = 0, totalErrors = 0,
      workers = replicate (nat NumWorkers) Receiving,
      panicked = [], joined = False, claimed = []\<rparr>"

text \<open>Lines 94--99: send every file, close the channel, wait for all workers.\<close>

definition main_step :: "pool \<Rightarrow> pool option" where
  "main_step s =
     (if joined s then None
      else (case files_left s of
              file # rest \<Rightarrow> Some (s\<lparr>files_left := rest, jobs := jobs s @ [file]\<rparr>)
            | [] \<Rightarrow>
                if \<not> jobs_closed s then Some (s\<lparr>jobs_closed := True\<rparr>)
                else if list_all wg_done (workers s) then Some (s\<lparr>joined := True\<rparr>)
                else None))"

text \<open>Lines 151--164: one step of worker \<open>i\<close>; \<open>None\<close> when it is blocked or gone.\<close>

definition worker_step :: "'r extern \<Rightarrow> RegexConfig \<Rightarrow> nat \<Rightarrow> pool \<Rightarrow> pool option" where
  "worker_step ext regexCfg i s =
     (if length (workers s) \<le> i then None
      else (case workers s ! i of
              Receiving \<Rightarrow>
                (case jobs s of
                   job # rest \<Rightarrow>
                     Some (s\<lparr>jobs := rest, claimed := claimed s @ [job],
                             workers := (workers s)[i := Holding job]\<rparr>)
                 | [] \<Rightarrow>
                     if jobs_closed s then Some (s\<lparr>workers := (workers s)[i := Exited]\<rparr>)
                     else None)
            | Holding job \<Rightarrow>
                (case readPdf ext job of
                   Inl p \<Rightarrow>
                     Some (s\<lparr>panicked := panicked s @ [p],
                             workers := (workers s)[i := Panicked]\<rparr>)
                 | Inr (Inl err) \<Rightarrow>
                     Some (s\<lparr>totalErrors := totalErrors s + 1,
                             workers := (workers s)[i := Receiving]\<rparr>)
                 | Inr (Inr content) \<Rightarrow>
                     (case parseInvoice (regexp_Compile ext) content regexCfg of
                        Inl p \<Rightarrow>
                          Some (s\<lparr>panicked := panicked s @ [p],
                                  workers := (workers s)[i := Panicked]\<rparr>)
                      | Inr invoice \<Rightarrow>
                          Some (s\<lparr>results := results s @ [invoice],
                                  workers := (workers s)[i := Counting]\<rparr>)))
            | Counting \<Rightarrow>
                Some (s\<lparr>totalProcessed := totalProcessed s + 1,
                        workers := (workers s)[i := Receiving]\<rparr>)
            | Exited \<Rightarrow> None
            | Panicked \<Rightarrow> None))"

definition step :: "'r extern \<Rightarrow> RegexConfig \<Rightarrow> actor \<Rightarrow> pool \<Rightarrow> pool option" where
  "step ext regexCfg a s =
     (case a of
        MainThread \<Rightarrow> main_step s
      | Worker i \<Rightarrow> worker_step ext regexCfg i s)"

text \<open>
  A schedule names the goroutine that moves next; a goroutine that cannot move when it
  is named is passed over.
\<close>

fun run :: "'r extern \<Rightarrow> RegexConfig \<Rightarrow> actor list \<Rightarrow> pool \<Rightarrow> pool" where
  "run ext regexCfg [] s = s"
| "run ext regexCfg (a # sched) s =
     run ext regexCfg sched (case step ext regexCfg a s of None \<Rightarrow> s | Some s' \<Rightarrow> s')"

subsection \<open>Accounting of the jobs\<close>










section \<open>Example inputs\<close>

text \<open>
  The examples below run the program on one document text, on the empty text and on the
  text \<open>Data 26-10\<close>, a date without its year. The table \<open>example_matches\<close> lists,
  for each pattern of the example rule set, for the fixed registration-code pattern and
  for \<open>example_optional_year\<close>, a date pattern whose third group is optional, the
  matches that package \<open>regexp\<close> finds in \<open>example_text\<close>; the amount pattern matches
  twice. None of these patterns matches the empty text, and only the pattern with the
  optional group matches \<open>Data 26-10\<close>: its third group takes no part in the match,
  and the library gives the empty string for it. The empty pattern matches the empty
  string at every position of a text, without capture groups, and the pattern \<open>(\<close>
  does not compile (its parenthesis is not closed). \<open>example_Compile\<close> is this excerpt
  of the library; it is used at these patterns and at these three texts only.
\<close>

definition example_text :: string where
  "example_text =
     ''Fatura FT 2023/1001 Cliente ACME Data matricula AB-12-CD Data 26-10-2023 '' @
     ''Total 1.234,56 12 meses Total 9,99''"

definition example_config :: RegexConfig where
  "example_config =
     \<lparr>cfgFatura = ''Fatura (FT [0-9]+/[0-9]+)'',
      cfgClienteMatricula = ''Cliente (.*?) Data'',
      cfgDataInicio = ''([0-9]{2})-([0-9]{2})-([0-9]{4})'',
      cfgValor = ''Total ([0-9.,]+)'',
      cfgPrazoMeses = ''([0-9]{1,2}) [Mm]eses''\<rparr>"

definition example_optional_year :: string where
  "example_optional_year = ''([0-9]{2})-([0-9]{2})(-[0-9]{4})?''"

definition example_matches :: "(string \<times> string list list) list" where
  "example_matches =
     [(''Fatura (FT [0-9]+/[0-9]+)'', [[''Fatura FT 2023/1001'', ''FT 2023/1001'']]),
      (''Cliente (.*?) Data'', [[''Cliente ACME Data'', ''ACME'']]),
      (matricula_pattern, [[''matricula AB-12-CD'', ''AB-12-CD'']]),
      (''([0-9]{2})-([0-9]{2})-([0-9]{4})'', [[''26-10-2023'', ''26'', ''10'', ''2023'']]),
      (''Total ([0-9.,]+)'',
         [[''Total 1.234,56'', ''1.234,56''], [''Total 9,99'', ''9,99'']]),
      (''([0-9]{1,2}) [Mm]eses'', [[''12 meses'', ''12'']]),
      (example_optional_year, [[''26-10-2023'', ''26'', ''10'', ''-2023'']])]"

definition example_regexp :: "string \<Rightarrow> regexp" where
  "example_regexp pattern text =
     (if pattern = [] then replicate (Suc (length text)) [[]]
      else if text = example_text
        then (case map_of example_matches pattern of None \<Rightarrow> [] | Some ms \<Rightarrow> ms)
      else if text = ''Data 26-10'' \<and> pattern = example_optional_year
        then [[''26-10'', ''26'', ''10'', []]]
      else [])"

definition example_Compile :: "string \<Rightarrow> regexp option" where
  "example_Compile pattern = (if pattern = ''('' then None else Some (example_regexp pattern))"

text \<open>
  Two rule set files: \<open>template.json\<close>, whose only member is the amount pattern
  \<open>(\<close>, and \<open>empty.json\<close>, the empty object. \<open>CHR 0x22\<close> is the double quote.
  \<open>example_decodeJSON\<close> is the excerpt of the JSON syntax at these two texts.
\<close>

definition example_template :: string where
  "example_template =
     ''{'' @ [CHR 0x22] @ ''valor'' @ [CHR 0x22] @ '': '' @ [CHR 0x22] @ ''('' @ [CHR 0x22] @ ''}''"

definition example_ReadFile :: "string \<Rightarrow> error + string" where
  "example_ReadFile filePath =
     (if filePath = ''template.json'' then Inr example_template
      else if filePath = ''empty.json'' then Inr ''{}''
      else Inl (OsError filePath))"

definition example_decodeJSON :: "string \<Rightarrow> json option" where
  "example_decodeJSON data =
     (if data = example_template then Some (JObject [(''valor'', JString ''('')])
      else if data = ''{}'' then Some (JObject [])
      else None)"

text \<open>
  Four documents: \<open>a.pdf\<close> holds \<open>example_text\<close>, \<open>blank.pdf\<close> holds the
  empty text, \<open>bad.pdf\<close> cannot be opened, and \<open>broken.pdf\<close> is a malformed file
  on which the PDF library panics.
\<close>

definition example_extern :: "string extern" where
  "example_extern =
     \<lparr>regexp_Compile = example_Compile,
      pdf_Open = (\<lambda>path. if path = ''a.pdf'' then Inr (Inr example_text)
                          else if path = ''blank.pdf'' then Inr (Inr [])
                          else if path = ''broken.pdf'' then Inl (PdfPanic ''malformed PDF'')
                          else Inr (Inl (PdfError path))),
      GetPlainText = (\<lambda>r. Inr (Inr r))\<rparr>"

text \<open>A record with the given invoice id and no other field.\<close>

definition example_invoice :: "string \<Rightarrow> Invoice" where
  "example_invoice fatura =
     \<lparr>Fatura = fatura, ClienteMatricula = [], DataInicio = [], Valor = [], PrazoMeses = []\<rparr>"

section \<open>Properties of the collator\<close>

subsection \<open>Insertion sort with an arbitrary comparator\<close>

lemma mset_insert_left: "mset (insert_left f x ps) = add_mset x (mset ps)"
  by (induction ps) simp_all

lemma mset_foldl_insert_left:
  "mset (foldl (\<lambda>ps x. insert_left f x ps) acc xs) = mset acc + mset xs"
  by (induction xs arbitrary: acc) (simp_all add: mset_insert_left)

lemma mset_insertionSort: "mset (insertionSort f xs) = mset xs"
  by (simp add: insertionSort_def mset_foldl_insert_left)

lemma set_insert_left: "set (insert_left f x ps) = insert x (set ps)"
  by (induction ps) auto

text \<open>Elements that are not ordered among themselves keep their places.\<close>

lemma filter_insert_left:
  assumes "\<And>u v. P u \<Longrightarrow> P v \<Longrightarrow> \<not> f u v"
  shows "filter P (insert_left f x ps) = filter P (x # ps)"
proof (induction ps)
  case Nil
  show ?case by simp
next
  case (Cons p ps)
  show ?case
  proof (cases "f x p")
    case True
    then have "\<not> (P x \<and> P p)" using assms by blast
    with True Cons show ?thesis by auto
  next
    case False
    then show ?thesis by simp
  qed
qed

lemma filter_foldl_insert_left:
  assumes "\<And>u v. P u \<Longrightarrow> P v \<Longrightarrow> \<not> f u v"
  shows "filter P (foldl (\<lambda>ps x. insert_left f x ps) acc xs) = rev (filter P xs) @ filter P acc"
proof (induction xs arbitrary: acc)
  case Nil
  show ?case by simp
next
  case (Cons x xs)
  have "filter P (insert_left f x acc) = filter P (x # acc)"
    using assms by (rule filter_insert_left)
  with Cons show ?case by simp
qed

lemma filter_insertionSort:
  assumes "\<And>u v. P u \<Longrightarrow> P v \<Longrightarrow> \<not> f u v"
  shows "filter P (insertionSort f xs) = filter P xs"
  using filter_foldl_insert_left [of P f "[]" xs, OF assms]
  by (simp add: insertionSort_def rev_filter [symmetric])

text \<open>Under a transitive ordering, insertion sort puts the slice in order.\<close>

lemma transitive_ordering_asym:
  assumes "transitive_ordering f A" and "a \<in> A" and "b \<in> A" and "f a b"
  shows "\<not> f b a"
proof
  assume "f b a"
  with assms have "f a a" unfolding transitive_ordering_def by blast
  with assms(1,2) show False unfolding transitive_ordering_def by blast
qed

lemma transitive_ordering_incomparable:
  assumes "transitive_ordering f A" and "a \<in> A" and "b \<in> A" and "c \<in> A"
    and "\<not> f a b" and "\<not> f b c"
  shows "\<not> f a c"
  using assms unfolding transitive_ordering_def by blast

lemma sorted_insert_left:
  assumes ord: "transitive_ordering f A"
    and "x \<in> A" and "set ps \<subseteq> A"
    and "sorted_wrt (\<lambda>u v. \<not> f u v) ps"
  shows "sorted_wrt (\<lambda>u v. \<not> f u v) (insert_left f x ps)"
  using assms(2-)
proof (induction ps)
  case Nil
  show ?case by simp
next
  case (Cons p ps)
  from Cons.prems have p: "p \<in> A" and ps: "set ps \<subseteq> A" by simp_all
  show ?case
  proof (cases "f x p")
    case True
    have "\<not> f p x" using ord Cons.prems(1) p True by (rule transitive_ordering_asym)
    moreover have "sorted_wrt (\<lambda>u v. \<not> f u v) (insert_left f x ps)"
      using Cons.IH Cons.prems(1) ps Cons.prems(3) by simp
    ultimately show ?thesis using True Cons.prems(3) by (simp add: set_insert_left)
  next
    case False
    have "\<not> f x y" if "y \<in> set ps" for y
    proof -
      from that ps have y: "y \<in> A" by blast
      from that Cons.prems(3) have "\<not> f p y" by simp
      with ord Cons.prems(1) p y False show ?thesis
        by (rule transitive_ordering_incomparable)
    qed
    with False Cons.prems(3) show ?thesis by simp
  qed
qed

lemma sorted_foldl_insert_left:
  assumes ord: "transitive_ordering f A"
  shows "set acc \<subseteq> A \<Longrightarrow> set xs \<subseteq> A \<Longrightarrow> sorted_wrt (\<lambda>u v. \<not> f u v) acc
    \<Longrightarrow> sorted_wrt (\<lambda>u v. \<not> f u v) (foldl (\<lambda>ps x. insert_left f x ps) acc xs)"
proof (induction xs arbitrary: acc)
  case Nil
  then show ?case by simp
next
  case (Cons x xs)
  from Cons.prems have x: "x \<in> A" and xs: "set xs \<subseteq> A" by simp_all
  have "sorted_wrt (\<lambda>u v. \<not> f u v) (insert_left f x acc)"
    using ord x Cons.prems(1,3) by (rule sorted_insert_left)
  moreover have "set (insert_left f x acc) \<subseteq> A"
    using x Cons.prems(1) by (simp add: set_insert_left)
  ultimately show ?case using Cons.IH xs by simp
qed

lemma sorted_insertionSort:
  assumes "transitive_ordering f (set xs)"
  shows "sorted_wrt (\<lambda>a b. \<not> f b a) (insertionSort f xs)"
proof -
  have "sorted_wrt (\<lambda>u v. \<not> f u v) (foldl (\<lambda>ps x. insert_left f x ps) [] xs)"
    using assms by (rule sorted_foldl_insert_left) simp_all
  then show ?thesis by (simp add: insertionSort_def sorted_wrt_rev)
qed

text \<open>Insertion sort keeps to what the package documents, and so does \<open>sort_Slice\<close>.\<close>

lemma sorts_insertionSort: "sorts insertionSort"
  unfolding sorts_def by (simp add: mset_insertionSort sorted_insertionSort)

lemma sorts_sort_Slice:
  assumes "sorts long"
  shows "mset (sort_Slice long f xs) = mset xs"
    and "transitive_ordering f (set xs) \<Longrightarrow> sorted_wrt (\<lambda>a b. \<not> f b a) (sort_Slice long f xs)"
  using assms unfolding sorts_def sort_Slice_def
  by (simp_all add: mset_insertionSort sorted_insertionSort)

subsection \<open>Sorting under a strict total order\<close>

lemma total_ordering_transitive:
  assumes "total_ordering f A"
  shows "transitive_ordering f A"
  unfolding transitive_ordering_def
proof (intro conjI ballI)
  fix a assume "a \<in> A"
  with assms show "\<not> f a a" unfolding total_ordering_def by blast
next
  fix a b c assume abc: "a \<in> A" "b \<in> A" "c \<in> A"
  from assms abc show "f a b \<and> f b c \<longrightarrow> f a c" unfolding total_ordering_def by blast
  show "\<not> f a b \<and> \<not> f b c \<longrightarrow> \<not> f a c"
  proof (intro impI notI)
    assume n: "\<not> f a b \<and> \<not> f b c" and ac: "f a c"
    from n assms abc have ba: "a = b \<or> f b a" and cb: "b = c \<or> f c b"
      unfolding total_ordering_def by blast+
    from assms abc have irr: "\<not> f a a" "\<not> f c c"
      and tr: "\<And>x y z. x \<in> A \<Longrightarrow> y \<in> A \<Longrightarrow> z \<in> A \<Longrightarrow> f x y \<Longrightarrow> f y z \<Longrightarrow> f x z"
      unfolding total_ordering_def by blast+
    from ba cb n ac irr tr abc show False by metis
  qed
qed

text \<open>Two arrangements in order of the same elements, under a strict total order, are equal.\<close>

lemma sorted_unique:
  assumes ord: "total_ordering f A"
  shows "set xs \<subseteq> A \<Longrightarrow> mset ys = mset xs
    \<Longrightarrow> sorted_wrt (\<lambda>a b. \<not> f b a) xs \<Longrightarrow> sorted_wrt (\<lambda>a b. \<not> f b a) ys \<Longrightarrow> ys = xs"
proof (induction xs arbitrary: ys)
  case Nil
  then show ?case by simp
next
  case (Cons x xs)
  from Cons.prems(2) obtain y ys' where ys: "ys = y # ys'" by (cases ys) auto
  have sets: "set ys = set (x # xs)" using Cons.prems(2) by (rule mset_eq_setD)
  have xy: "y = x"
  proof (rule ccontr)
    assume ne: "y \<noteq> x"
    from sets ys ne have "y \<in> set xs" and "x \<in> set ys'" by auto
    with Cons.prems(3,4) ys have "\<not> f y x" and "\<not> f x y" by auto
    moreover from sets ys Cons.prems(1) have "x \<in> A" "y \<in> A" by auto
    ultimately show False using ord ne unfolding total_ordering_def by blast
  qed
  with Cons.prems(2) ys have "mset ys' = mset xs" by simp
  moreover from Cons.prems(1) have "set xs \<subseteq> A" by simp
  ultimately have "ys' = xs" using Cons.prems(3,4) ys by (intro Cons.IH) simp_all
  with xy ys show ?case by simp
qed

lemma sort_Slice_permuted:
  assumes long: "sorts long" and ord: "total_ordering f (set xs)" and perm: "mset ys = mset xs"
  shows "sort_Slice long f ys = sort_Slice long f xs"
proof -
  have sets: "set ys = set xs" using perm by (rule mset_eq_setD)
  from ord have tr: "transitive_ordering f (set xs)" by (rule total_ordering_transitive)
  have "set (sort_Slice long f xs) = set xs"
    using sorts_sort_Slice(1) [OF long, of f xs] by (rule mset_eq_setD)
  then have sub: "set (sort_Slice long f xs) \<subseteq> set xs" by simp
  have m: "mset (sort_Slice long f ys) = mset (sort_Slice long f xs)"
    by (simp add: sorts_sort_Slice(1) [OF long] perm)
  have sx: "sorted_wrt (\<lambda>a b. \<not> f b a) (sort_Slice long f xs)"
    using long tr by (rule sorts_sort_Slice(2))
  have sy: "sorted_wrt (\<lambda>a b. \<not> f b a) (sort_Slice long f ys)"
    using long tr [folded sets] by (rule sorts_sort_Slice(2))
  from ord sub m sx sy show ?thesis by (rule sorted_unique)
qed


subsection \<open>The comparator\<close>

lemma less_fatura_spec_less: "less_fatura a b = spec_less a b"
  unfolding less_fatura_def spec_less_def suffix_number_def second_segment_def Let_def
  by (auto split: list.splits option.splits)

lemma less_fatura_numeric:
  "suffix_number a = Some m \<Longrightarrow> suffix_number b = Some n \<Longrightarrow> less_fatura a b \<longleftrightarrow> m < n"
  by (simp add: less_fatura_spec_less spec_less_def)

lemma less_fatura_fallback:
  "suffix_number a = None \<or> suffix_number b = None \<Longrightarrow> less_fatura a b \<longleftrightarrow> a < b"
  by (auto simp: less_fatura_spec_less spec_less_def split: option.splits)

lemma less_fatura_irrefl: "\<not> less_fatura a a"
  by (simp add: less_fatura_spec_less spec_less_def split: option.splits)


text \<open>
  The comparator is not transitive: a numeric pair, and two pairs that fall back to the
  comparison of strings, form a cycle.
\<close>

lemma less_fatura_cycle:
  "less_fatura ''A/2'' ''A/10'' \<and> less_fatura ''A/10'' ''A/1x'' \<and> less_fatura ''A/1x'' ''A/2''"
  by code_simp

text \<open>
  It is a strict total order on a set of records that it compares through a key, a
  different one for different records: the numbers of the ids when all have one, the ids
  when none has a number.
\<close>

lemma total_ordering_key:
  fixes k :: "'a \<Rightarrow> 'k::linorder"
  assumes ord: "\<And>a b. a \<in> A \<Longrightarrow> b \<in> A \<Longrightarrow> f a b \<longleftrightarrow> k a < k b"
    and inj: "inj_on k A"
  shows "total_ordering f A"
  unfolding total_ordering_def
proof (intro conjI ballI impI)
  fix a assume "a \<in> A"
  then show "\<not> f a a" by (simp add: ord)
next
  fix a b c assume "a \<in> A" "b \<in> A" "c \<in> A" "f a b \<and> f b c"
  then show "f a c" by (auto simp: ord)
next
  fix a b assume a: "a \<in> A" and b: "b \<in> A" and ne: "a \<noteq> b"
  from inj a b ne have "k a \<noteq> k b" by (auto dest: inj_onD)
  then show "f a b \<or> f b a" using a b by (auto simp: ord)
qed

lemma invoice_less_numbers:
  assumes num: "\<forall>a\<in>set xs. suffix_number (Fatura a) \<noteq> None"
    and inj: "inj_on (\<lambda>a. suffix_number (Fatura a)) (set xs)"
  shows "total_ordering invoice_less (set xs)"
proof (rule total_ordering_key)
  fix a b assume "a \<in> set xs" "b \<in> set xs"
  with num have "suffix_number (Fatura a) \<noteq> None" "suffix_number (Fatura b) \<noteq> None"
    by blast+
  then obtain m n where "suffix_number (Fatura a) = Some m" "suffix_number (Fatura b) = Some n"
    by auto
  then show "invoice_less a b \<longleftrightarrow> the (suffix_number (Fatura a)) < the (suffix_number (Fatura b))"
    by (simp add: invoice_less_def less_fatura_numeric)
next
  show "inj_on (\<lambda>a. the (suffix_number (Fatura a))) (set xs)"
  proof (rule inj_onI)
    fix a b
    assume a: "a \<in> set xs" and b: "b \<in> set xs"
      and eq: "the (suffix_number (Fatura a)) = the (suffix_number (Fatura b))"
    from num a b have "suffix_number (Fatura a) \<noteq> None" "suffix_number (Fatura b) \<noteq> None"
      by blast+
    then obtain m n where "suffix_number (Fatura a) = Some m" "suffix_number (Fatura b) = Some n"
      by auto
    with eq have "suffix_number (Fatura a) = suffix_number (Fatura b)" by simp
    with inj a b show "a = b" by (auto dest: inj_onD)
  qed
qed

lemma invoice_less_strings:
  assumes str: "\<forall>a\<in>set xs. suffix_number (Fatura a) = None"
    and inj: "inj_on Fatura (set xs)"
  shows "total_ordering invoice_less (set xs)"
proof (rule total_ordering_key)
  fix a b assume "a \<in> set xs" "b \<in> set xs"
  with str show "invoice_less a b \<longleftrightarrow> Fatura a < Fatura b"
    by (simp add: invoice_less_def less_fatura_fallback)
next
  show "inj_on Fatura (set xs)" by (rule inj)
qed

lemma example_suffix_numbers:
  "map (\<lambda>a. suffix_number (Fatura a))
     (map example_invoice
        [''FT 2023/1007'', ''FT 2023/1003'', ''FT 2023/1005'', ''FT 2023/1001'',
         ''FT 2023/1006'', ''FT 2023/1002'', ''FT 2023/1004''])
   = [Some 1007, Some 1003, Some 1005, Some 1001, Some 1006, Some 1002, Some 1004]"
  by code_simp

text \<open>
  On longer batches the documentation of \<open>sort.Slice\<close> leaves the order of records that
  the comparator does not order to the algorithm: insertion sort of the reversed slice
  keeps to the documentation, and it reverses seven records with the same number.
\<close>

lemma sorts_reversed: "sorts (\<lambda>lessFn xs. insertionSort lessFn (rev xs))"
  unfolding sorts_def by (simp add: mset_insertionSort sorted_insertionSort)

lemma long_batch_reversed:
  "sort_invoices (\<lambda>lessFn xs. insertionSort lessFn (rev xs))
     (map example_invoice [''A/1'', ''B/1'', ''C/1'', ''D/1'', ''E/1'', ''F/1'', ''G/1''])
   = map example_invoice [''G/1'', ''F/1'', ''E/1'', ''D/1'', ''C/1'', ''B/1'', ''A/1'']"
  by code_simp

subsection \<open>Claims about the ordering\<close>

text \<open>
  C1, as the specification states it: the sorted sequence is the same for every
  permutation of the input. It is not: the ids \<open>A/1\<close> and \<open>B/1\<close> carry the same
  number, neither record is less than the other, and the sort leaves both orders of
  the two records as they are.
\<close>

theorem sort_invoices_permutation_counterexample:
  "mset [\<lparr>Fatura = ''B/1'', ClienteMatricula = [], DataInicio = [], Valor = [], PrazoMeses = []\<rparr>,
         \<lparr>Fatura = ''A/1'', ClienteMatricula = [], DataInicio = [], Valor = [], PrazoMeses = []\<rparr>]
   = mset [\<lparr>Fatura = ''A/1'', ClienteMatricula = [], DataInicio = [], Valor = [], PrazoMeses = []\<rparr>,
           \<lparr>Fatura = ''B/1'', ClienteMatricula = [], DataInicio = [], Valor = [], PrazoMeses = []\<rparr>]
   \<and> (\<forall>long. sort_invoices long
        [\<lparr>Fatura = ''B/1'', ClienteMatricula = [], DataInicio = [], Valor = [], PrazoMeses = []\<rparr>,
         \<lparr>Fatura = ''A/1'', ClienteMatricula = [], DataInicio = [], Valor = [], PrazoMeses = []\<rparr>]
     \<noteq> sort_invoices long
        [\<lparr>Fatura = ''A/1'', ClienteMatricula = [], DataInicio = [], Valor = [], PrazoMeses = []\<rparr>,
         \<lparr>Fatura = ''B/1'', ClienteMatricula = [], DataInicio = [], Valor = [], PrazoMeses = []\<rparr>])"
proof -
  have "\<not> less_fatura ''A/1'' ''B/1''" and "\<not> less_fatura ''B/1'' ''A/1''"
    by code_simp+
  then show ?thesis
    by (simp add: sort_invoices_def sort_Slice_def insertionSort_def invoice_less_def)
qed

text \<open>
  C1, amended: the sorted sequence is a permutation of the input, and every permutation
  of the input is sorted to the same sequence when the comparator is a strict total
  order on the records of the batch; it is one when every id has a number and different
  records have different numbers, and when no id has a number and different records
  have different ids. On a batch of at most 6 records, records that the comparator does
  not order among themselves, such as records with the same number or with the same id,
  keep the relative order of the input (the sort is stable there). For batches of more
  than 6 records this is proved for every algorithm \<open>long\<close> that keeps to the
  documentation of \<open>sort.Slice\<close>.
\<close>

theorem sort_invoices_order:
  assumes long: "sorts long"
  shows "mset (sort_invoices long xs) = mset xs
    \<and> (\<forall>ys. mset ys = mset xs \<longrightarrow> total_ordering invoice_less (set xs)
          \<longrightarrow> sort_invoices long ys = sort_invoices long xs)
    \<and> (\<forall>ys. mset ys = mset xs
          \<longrightarrow> ((\<forall>a\<in>set xs. suffix_number (Fatura a) \<noteq> None)
                 \<and> inj_on (\<lambda>a. suffix_number (Fatura a)) (set xs))
              \<or> ((\<forall>a\<in>set xs. suffix_number (Fatura a) = None) \<and> inj_on Fatura (set xs))
          \<longrightarrow> total_ordering invoice_less (set xs)
              \<and> sort_invoices long ys = sort_invoices long xs)
    \<and> (length xs \<le> 6 \<longrightarrow>
         (\<forall>P. (\<forall>u v. P u \<longrightarrow> P v \<longrightarrow> \<not> invoice_less u v)
            \<longrightarrow> filter P (sort_invoices long xs) = filter P xs))"
proof (intro conjI allI impI)
  show "mset (sort_invoices long xs) = mset xs"
    unfolding sort_invoices_def using long by (rule sorts_sort_Slice)
next
  fix ys
  assume perm: "mset ys = mset xs" and total: "total_ordering invoice_less (set xs)"
  from long total perm show "sort_invoices long ys = sort_invoices long xs"
    unfolding sort_invoices_def by (rule sort_Slice_permuted)
next
  fix ys
  assume perm: "mset ys = mset xs"
  assume tiers:
    "((\<forall>a\<in>set xs. suffix_number (Fatura a) \<noteq> None)
        \<and> inj_on (\<lambda>a. suffix_number (Fatura a)) (set xs))
     \<or> ((\<forall>a\<in>set xs. suffix_number (Fatura a) = None) \<and> inj_on Fatura (set xs))"
  then show total: "total_ordering invoice_less (set xs)"
    using invoice_less_numbers [of xs] invoice_less_strings [of xs] by blast
  from long total perm show "sort_invoices long ys = sort_invoices long xs"
    unfolding sort_invoices_def by (rule sort_Slice_permuted)
next
  fix P :: "Invoice \<Rightarrow> bool"
  assume short: "length xs \<le> 6"
  assume "\<forall>u v. P u \<longrightarrow> P v \<longrightarrow> \<not> invoice_less u v"
  then have "\<And>u v. P u \<Longrightarrow> P v \<Longrightarrow> \<not> invoice_less u v" by blast
  then have "filter P (insertionSort invoice_less xs) = filter P xs"
    by (rule filter_insertionSort)
  with short show "filter P (sort_invoices long xs) = filter P xs"
    by (simp add: sort_invoices_def sort_Slice_def)
qed

theorem sort_invoices_order_witness:
  "sorts (insertionSort :: Invoice sorter)
   \<and> mset (rev (map example_invoice
        [''FT 2023/1007'', ''FT 2023/1003'', ''FT 2023/1005'', ''FT 2023/1001'',
         ''FT 2023/1006'', ''FT 2023/1002'', ''FT 2023/1004'']))
     = mset (map example_invoice
        [''FT 2023/1007'', ''FT 2023/1003'', ''FT 2023/1005'', ''FT 2023/1001'',
         ''FT 2023/1006'', ''FT 2023/1002'', ''FT 2023/1004''])
   \<and> total_ordering invoice_less (set (map example_invoice
        [''FT 2023/1007'', ''FT 2023/1003'', ''FT 2023/1005'', ''FT 2023/1001'',
         ''FT 2023/1006'', ''FT 2023/1002'', ''FT 2023/1004'']))
   \<and> sort_invoices insertionSort (rev (map example_invoice
        [''FT 2023/1007'', ''FT 2023/1003'', ''FT 2023/1005'', ''FT 2023/1001'',
         ''FT 2023/1006'', ''FT 2023/1002'', ''FT 2023/1004'']))
     = sort_invoices insertionSort (map example_invoice
        [''FT 2023/1007'', ''FT 2023/1003'', ''FT 2023/1005'', ''FT 2023/1001'',
         ''FT 2023/1006'', ''FT 2023/1002'', ''FT 2023/1004''])
   \<and> sort_invoices insertionSort (map example_invoice
        [''FT 2023/1007'', ''FT 2023/1003'', ''FT 2023/1005'', ''FT 2023/1001'',
         ''FT 2023/1006'', ''FT 2023/1002'', ''FT 2023/1004''])
     = map example_invoice
        [''FT 2023/1001'', ''FT 2023/1002'', ''FT 2023/1003'', ''FT 2023/1004'',
         ''FT 2023/1005'', ''FT 2023/1006'', ''FT 2023/1007'']
   \<and> length (map example_invoice [''B/1'', ''C/2'', ''A/1'']) \<le> 6
   \<and> filter (\<lambda>r. suffix_number (Fatura r) = Some 1)
       (sort_invoices insertionSort (map example_invoice [''B/1'', ''C/2'', ''A/1'']))
     = map example_invoice [''B/1'', ''A/1'']
   \<and> sort_invoices insertionSort (map example_invoice [''B/1'', ''C/2'', ''A/1''])
     = map example_invoice [''B/1'', ''A/1'', ''C/2'']"
proof -
  let ?xs = "map example_invoice
        [''FT 2023/1007'', ''FT 2023/1003'', ''FT 2023/1005'', ''FT 2023/1001'',
         ''FT 2023/1006'', ''FT 2023/1002'', ''FT 2023/1004'']"
  let ?zs = "map example_invoice [''B/1'', ''C/2'', ''A/1'']"
  let ?P = "\<lambda>r. suffix_number (Fatura r) = Some 1"
  have long: "sorts (insertionSort :: Invoice sorter)" by (rule sorts_insertionSort)
  have perm: "mset (rev ?xs) = mset ?xs" by (rule mset_rev)
  have nums: "\<forall>a\<in>set ?xs. suffix_number (Fatura a) \<noteq> None"
    using example_suffix_numbers by (simp add: example_invoice_def)
  have inj: "inj_on (\<lambda>a. suffix_number (Fatura a)) (set ?xs)"
    using example_suffix_numbers by (simp add: example_invoice_def)
  have tier: "((\<forall>a\<in>set ?xs. suffix_number (Fatura a) \<noteq> None)
        \<and> inj_on (\<lambda>a. suffix_number (Fatura a)) (set ?xs))
     \<or> ((\<forall>a\<in>set ?xs. suffix_number (Fatura a) = None) \<and> inj_on Fatura (set ?xs))"
    using nums inj by (intro disjI1 conjI)
  have both: "total_ordering invoice_less (set ?xs)
      \<and> sort_invoices insertionSort (rev ?xs) = sort_invoices insertionSort ?xs"
    by (rule sort_invoices_order [OF long, of ?xs, THEN conjunct2, THEN conjunct2, THEN conjunct1,
          THEN spec, THEN mp, OF perm, THEN mp, OF tier])
  have sorted: "sort_invoices insertionSort ?xs
     = map example_invoice
        [''FT 2023/1001'', ''FT 2023/1002'', ''FT 2023/1003'', ''FT 2023/1004'',
         ''FT 2023/1005'', ''FT 2023/1006'', ''FT 2023/1007'']"
    by code_simp
  have short: "length ?zs \<le> 6" by simp
  have unordered: "\<forall>u v. ?P u \<longrightarrow> ?P v \<longrightarrow> \<not> invoice_less u v"
    by (simp add: invoice_less_def less_fatura_numeric)
  have "filter ?P (sort_invoices insertionSort ?zs) = filter ?P ?zs"
    by (rule sort_invoices_order [OF long, of ?zs, THEN conjunct2, THEN conjunct2, THEN conjunct2,
          THEN mp, OF short, THEN spec, THEN mp, OF unordered])
  moreover have "filter ?P ?zs = map example_invoice [''B/1'', ''A/1'']" by code_simp
  ultimately have stable: "filter ?P (sort_invoices insertionSort ?zs)
      = map example_invoice [''B/1'', ''A/1'']"
    by (simp only:)
  have tied: "sort_invoices insertionSort ?zs = map example_invoice [''B/1'', ''A/1'', ''C/2'']"
    by code_simp
  from long perm both sorted short stable tied show ?thesis by (simp only: simp_thms)
qed




section \<open>Properties of the field extractor\<close>

subsection \<open>The fields of a parsed invoice\<close>

lemma parseInvoice_Inr:
  assumes "parseInvoice Compile text regexCfg = Inr invoice"
  obtains reFatura reCliente reMatricula reDataInicio reValor rePrazoMeses where
    "Compile (cfgFatura regexCfg) = Some reFatura"
    "Compile (cfgClienteMatricula regexCfg) = Some reCliente"
    "Compile matricula_pattern = Some reMatricula"
    "Compile (cfgDataInicio regexCfg) = Some reDataInicio"
    "Compile (cfgValor regexCfg) = Some reValor"
    "Compile (cfgPrazoMeses regexCfg) = Some rePrazoMeses"
    "invoice = extractFields reFatura reCliente reMatricula reDataInicio reValor rePrazoMeses text"
  using assms unfolding parseInvoice_def MustCompile_def
  by (auto split: option.splits)

lemma Valor_extractFields:
  "Valor (extractFields r1 r2 r3 r4 r5 r6 text) =
     (if length (FindStringSubmatch r5 text) > 1
      then reValorCleanerDot_ReplaceAllString (FindStringSubmatch r5 text ! 1) []
      else [])"
  by (simp add: extractFields_def Let_def)

lemma remove_dots: "reValorCleanerDot_ReplaceAllString s [] = filter (\<lambda>c. c \<noteq> CHR ''.'') s"
  by (induction s) (simp_all add: reValorCleanerDot_ReplaceAllString_def)

lemma DataInicio_extractFields:
  "DataInicio (extractFields r1 r2 r3 r4 r5 r6 text) =
     (if length (FindStringSubmatch r4 text) > 3
      then FindStringSubmatch r4 text ! 3 @ ''-'' @ FindStringSubmatch r4 text ! 2 @ ''-''
             @ FindStringSubmatch r4 text ! 1
      else [])"
  by (simp add: extractFields_def Let_def)

lemma ClienteMatricula_extractFields:
  "ClienteMatricula (extractFields r1 r2 r3 r4 r5 r6 text) =
     (if length (FindStringSubmatch r2 text) > 1 \<and> length (FindStringSubmatch r3 text) > 1
        then FindStringSubmatch r2 text ! 1 @ ''/'' @ FindStringSubmatch r3 text ! 1
      else if length (FindStringSubmatch r2 text) > 1 then FindStringSubmatch r2 text ! 1
      else if length (FindStringSubmatch r3 text) > 1 then FindStringSubmatch r3 text ! 1
      else [])"
  by (simp add: extractFields_def Let_def)

lemma Fatura_extractFields:
  "Fatura (extractFields r1 r2 r3 r4 r5 r6 text) =
     (if length (FindStringSubmatch r1 text) > 1 then FindStringSubmatch r1 text ! 1 else [])"
  by (simp add: extractFields_def Let_def)

lemma PrazoMeses_extractFields:
  "PrazoMeses (extractFields r1 r2 r3 r4 r5 r6 text) =
     (if length (FindStringSubmatch r6 text) > 1 then FindStringSubmatch r6 text ! 1 else [])"
  by (simp add: extractFields_def Let_def)

lemma parseInvoice_example:
  "parseInvoice example_Compile example_text example_config =
     Inr \<lparr>Fatura = ''FT 2023/1001'', ClienteMatricula = ''ACME/AB-12-CD'',
          DataInicio = ''2023-10-26'', Valor = ''1234,56'', PrazoMeses = ''12''\<rparr>"
  by code_simp

lemma parseInvoice_example_empty_text:
  "parseInvoice example_Compile [] example_config =
     Inr \<lparr>Fatura = [], ClienteMatricula = [], DataInicio = [], Valor = [], PrazoMeses = []\<rparr>"
  by code_simp

lemma parseInvoice_example_optional_year:
  "parseInvoice example_Compile ''Data 26-10''
     (example_config\<lparr>cfgDataInicio := example_optional_year\<rparr>)
   = Inr \<lparr>Fatura = [], ClienteMatricula = [], DataInicio = ''-10-26'', Valor = [],
          PrazoMeses = []\<rparr>"
  by code_simp

subsection \<open>Claims about single fields\<close>

text \<open>
  C6: in the invoice that \<open>parseInvoice\<close> returns, the amount is the first capture
  group of the leftmost match of the \<open>valor\<close> pattern with every dot removed and
  every other byte, the comma included, kept in place; the group \<open>1.234,56\<close> gives
  \<open>1234,56\<close>. The amount is empty when the pattern does not match.
\<close>

theorem parseInvoice_Valor:
  assumes "parseInvoice Compile text regexCfg = Inr invoice"
    and "Compile (cfgValor regexCfg) = Some reValor"
    and "match = FindStringSubmatch reValor text"
  shows "(1 < length match \<longrightarrow> Valor invoice = filter (\<lambda>c. c \<noteq> CHR ''.'') (match ! 1))
    \<and> (1 < length match \<longrightarrow> match ! 1 = ''1.234,56'' \<longrightarrow> Valor invoice = ''1234,56'')
    \<and> (reValor text = [] \<longrightarrow> Valor invoice = [])"
proof -
  from assms(1) obtain r1 r2 r3 r4 r5 r6 where
    c: "Compile (cfgValor regexCfg) = Some r5" and
    inv: "invoice = extractFields r1 r2 r3 r4 r5 r6 text"
    by (rule parseInvoice_Inr)
  from c assms(2) have r5: "r5 = reValor" by simp
  have nomatch: "FindStringSubmatch reValor text = []" if "reValor text = []"
    using that by (simp add: FindStringSubmatch_def)
  show ?thesis
    unfolding inv r5 Valor_extractFields remove_dots assms(3)
    using nomatch by auto
qed

theorem parseInvoice_Valor_witness:
  "parseInvoice example_Compile example_text example_config =
     Inr \<lparr>Fatura = ''FT 2023/1001'', ClienteMatricula = ''ACME/AB-12-CD'',
          DataInicio = ''2023-10-26'', Valor = ''1234,56'', PrazoMeses = ''12''\<rparr>
   \<and> FindStringSubmatch (example_regexp ''Total ([0-9.,]+)'') example_text
       = [''Total 1.234,56'', ''1.234,56'']
   \<and> Valor \<lparr>Fatura = ''FT 2023/1001'', ClienteMatricula = ''ACME/AB-12-CD'',
          DataInicio = ''2023-10-26'', Valor = ''1234,56'', PrazoMeses = ''12''\<rparr>
       = filter (\<lambda>c. c \<noteq> CHR ''.'') ''1.234,56''
   \<and> example_regexp ''Total ([0-9.,]+)'' [] = []
   \<and> parseInvoice example_Compile [] example_config =
       Inr \<lparr>Fatura = [], ClienteMatricula = [], DataInicio = [], Valor = [], PrazoMeses = []\<rparr>"
proof -
  let ?re = "example_regexp ''Total ([0-9.,]+)''"
  have c: "example_Compile (cfgValor example_config) = Some ?re"
    by (simp add: example_config_def example_Compile_def)
  have m: "FindStringSubmatch ?re example_text = [''Total 1.234,56'', ''1.234,56'']"
    by code_simp
  have e: "?re [] = []" by code_simp
  note full = parseInvoice_Valor [OF parseInvoice_example c refl]
  note none = parseInvoice_Valor [OF parseInvoice_example_empty_text c refl]
  have "Valor \<lparr>Fatura = ''FT 2023/1001'', ClienteMatricula = ''ACME/AB-12-CD'',
          DataInicio = ''2023-10-26'', Valor = ''1234,56'', PrazoMeses = ''12''\<rparr>
       = filter (\<lambda>c. c \<noteq> CHR ''.'') (FindStringSubmatch ?re example_text ! 1)"
    using full [THEN conjunct1] by (rule mp) (simp add: m)
  then show ?thesis
    using none [THEN conjunct2, THEN conjunct2, THEN mp, OF e] m e
      parseInvoice_example parseInvoice_example_empty_text
    by simp
qed

text \<open>
  C7, as the specification states it: the start date is empty when fewer than three
  groups are captured. It is not: the pattern \<open>example_optional_year\<close> has three
  groups, and in the text \<open>Data 26-10\<close> its match captures two of them, the third one
  taking no part. \<open>FindStringSubmatch\<close> returns four strings, the last one empty, and
  the start date is \<open>-10-26\<close>.
\<close>

theorem unmatched_group_counterexample:
  "example_Compile example_optional_year = Some (example_regexp example_optional_year)
   \<and> FindStringSubmatch (example_regexp example_optional_year) ''Data 26-10''
       = [''26-10'', ''26'', ''10'', []]
   \<and> parseInvoice example_Compile ''Data 26-10''
        (example_config\<lparr>cfgDataInicio := example_optional_year\<rparr>)
     = Inr \<lparr>Fatura = [], ClienteMatricula = [], DataInicio = ''-10-26'', Valor = [],
            PrazoMeses = []\<rparr>
   \<and> ''-10-26'' \<noteq> []"
proof -
  have "example_Compile example_optional_year = Some (example_regexp example_optional_year)"
    by (simp add: example_Compile_def example_optional_year_def)
  moreover have "FindStringSubmatch (example_regexp example_optional_year) ''Data 26-10''
       = [''26-10'', ''26'', ''10'', []]"
    by code_simp
  ultimately show ?thesis using parseInvoice_example_optional_year by simp
qed

text \<open>
  C7, amended: when the leftmost match of the \<open>dataInicio\<close> pattern has at least three
  capture groups, that is, when the pattern matches and has at least three groups, the
  start date is the third group, the second and the first, joined by hyphens, a group
  that took no part in the match being the empty string: the groups \<open>26\<close>, \<open>10\<close>,
  \<open>2023\<close> give \<open>2023-10-26\<close>, and the groups \<open>26\<close>, \<open>10\<close> with a third group that
  took no part give \<open>-10-26\<close>. The start date is empty when the pattern does not match
  or has fewer than three groups, and only then.
\<close>

theorem parseInvoice_DataInicio:
  assumes "parseInvoice Compile text regexCfg = Inr invoice"
    and "Compile (cfgDataInicio regexCfg) = Some reDataInicio"
    and "match = FindStringSubmatch reDataInicio text"
  shows "(3 < length match \<longrightarrow>
            DataInicio invoice = match ! 3 @ ''-'' @ match ! 2 @ ''-'' @ match ! 1)
    \<and> (match = [whole, ''26'', ''10'', ''2023''] \<longrightarrow> DataInicio invoice = ''2023-10-26'')
    \<and> (match = [whole, ''26'', ''10'', []] \<longrightarrow> DataInicio invoice = ''-10-26'')
    \<and> (reDataInicio text = [] \<or> length match \<le> 3 \<longrightarrow> DataInicio invoice = [])
    \<and> (DataInicio invoice = [] \<longrightarrow> length match \<le> 3)"
proof -
  from assms(1) obtain r1 r2 r3 r4 r5 r6 where
    c: "Compile (cfgDataInicio regexCfg) = Some r4" and
    inv: "invoice = extractFields r1 r2 r3 r4 r5 r6 text"
    by (rule parseInvoice_Inr)
  from c assms(2) have r4: "r4 = reDataInicio" by simp
  have nomatch: "length (FindStringSubmatch reDataInicio text) \<le> 3" if "reDataInicio text = []"
    using that by (simp add: FindStringSubmatch_def)
  show ?thesis
    unfolding inv r4 DataInicio_extractFields assms(3)
    using nomatch by auto
qed

theorem parseInvoice_DataInicio_witness:
  "FindStringSubmatch (example_regexp ''([0-9]{2})-([0-9]{2})-([0-9]{4})'') example_text
       = [''26-10-2023'', ''26'', ''10'', ''2023'']
   \<and> parseInvoice example_Compile example_text example_config =
     Inr \<lparr>Fatura = ''FT 2023/1001'', ClienteMatricula = ''ACME/AB-12-CD'',
          DataInicio = ''2023-10-26'', Valor = ''1234,56'', PrazoMeses = ''12''\<rparr>
   \<and> DataInicio \<lparr>Fatura = ''FT 2023/1001'', ClienteMatricula = ''ACME/AB-12-CD'',
          DataInicio = ''2023-10-26'', Valor = ''1234,56'', PrazoMeses = ''12''\<rparr>
       = ''2023'' @ ''-'' @ ''10'' @ ''-'' @ ''26''
   \<and> example_regexp ''([0-9]{2})-([0-9]{2})-([0-9]{4})'' [] = []
   \<and> parseInvoice example_Compile [] example_config =
       Inr \<lparr>Fatura = [], ClienteMatricula = [], DataInicio = [], Valor = [], PrazoMeses = []\<rparr>
   \<and> FindStringSubmatch (example_regexp example_optional_year) ''Data 26-10''
       = [''26-10'', ''26'', ''10'', []]
   \<and> parseInvoice example_Compile ''Data 26-10''
        (example_config\<lparr>cfgDataInicio := example_optional_year\<rparr>)
     = Inr \<lparr>Fatura = [], ClienteMatricula = [], DataInicio = ''-10-26'', Valor = [],
            PrazoMeses = []\<rparr>
   \<and> DataInicio \<lparr>Fatura = [], ClienteMatricula = [], DataInicio = ''-10-26'', Valor = [],
            PrazoMeses = []\<rparr>
       = [] @ ''-'' @ ''10'' @ ''-'' @ ''26''"
proof -
  let ?re = "example_regexp ''([0-9]{2})-([0-9]{2})-([0-9]{4})''"
  let ?opt = "example_regexp example_optional_year"
  let ?cfg = "example_config\<lparr>cfgDataInicio := example_optional_year\<rparr>"
  have c: "example_Compile (cfgDataInicio example_config) = Some ?re"
    by (simp add: example_config_def example_Compile_def)
  have c': "example_Compile (cfgDataInicio ?cfg) = Some ?opt"
    by (simp add: example_Compile_def example_optional_year_def)
  have m: "FindStringSubmatch ?re example_text = [''26-10-2023'', ''26'', ''10'', ''2023'']"
    by code_simp
  have m': "FindStringSubmatch ?opt ''Data 26-10'' = [''26-10'', ''26'', ''10'', []]"
    by code_simp
  have e: "?re [] = []" by code_simp
  note full = parseInvoice_DataInicio [OF parseInvoice_example c refl]
  note none = parseInvoice_DataInicio [OF parseInvoice_example_empty_text c refl]
  note part = parseInvoice_DataInicio [OF parseInvoice_example_optional_year c' refl]
  have "DataInicio \<lparr>Fatura = ''FT 2023/1001'', ClienteMatricula = ''ACME/AB-12-CD'',
          DataInicio = ''2023-10-26'', Valor = ''1234,56'', PrazoMeses = ''12''\<rparr>
       = FindStringSubmatch ?re example_text ! 3 @ ''-'' @ FindStringSubmatch ?re example_text ! 2
           @ ''-'' @ FindStringSubmatch ?re example_text ! 1"
    using full [THEN conjunct1] by (rule mp) (simp add: m)
  moreover have "DataInicio \<lparr>Fatura = [], ClienteMatricula = [], DataInicio = ''-10-26'',
          Valor = [], PrazoMeses = []\<rparr>
       = FindStringSubmatch ?opt ''Data 26-10'' ! 3 @ ''-''
           @ FindStringSubmatch ?opt ''Data 26-10'' ! 2
           @ ''-'' @ FindStringSubmatch ?opt ''Data 26-10'' ! 1"
    using part [THEN conjunct1] by (rule mp) (simp add: m')
  ultimately show ?thesis
    using none [THEN conjunct2, THEN conjunct2, THEN conjunct2, THEN conjunct1, THEN mp,
        OF disjI1, OF e]
      m m' e parseInvoice_example parseInvoice_example_empty_text
      parseInvoice_example_optional_year
    by simp
qed

text \<open>
  C8: the client reference is built from the leftmost match of the configured
  \<open>clienteMatricula\<close> pattern and the leftmost match of the fixed registration-code
  pattern, which is compiled from a constant of the program and not from the rule set.
  When both have a capture group the result is the two first groups joined by \<open>/\<close>;
  when only one has, it is that group; when none has, it is empty.
\<close>

theorem parseInvoice_ClienteMatricula:
  assumes "parseInvoice Compile text regexCfg = Inr invoice"
    and "Compile (cfgClienteMatricula regexCfg) = Some reCliente"
    and "Compile matricula_pattern = Some reMatricula"
    and "clienteMatch = FindStringSubmatch reCliente text"
    and "matriculaMatch = FindStringSubmatch reMatricula text"
  shows "(1 < length clienteMatch \<and> 1 < length matriculaMatch \<longrightarrow>
            ClienteMatricula invoice = clienteMatch ! 1 @ ''/'' @ matriculaMatch ! 1)
    \<and> (1 < length clienteMatch \<and> length matriculaMatch \<le> 1 \<longrightarrow>
            ClienteMatricula invoice = clienteMatch ! 1)
    \<and> (length clienteMatch \<le> 1 \<and> 1 < length matriculaMatch \<longrightarrow>
            ClienteMatricula invoice = matriculaMatch ! 1)
    \<and> (length clienteMatch \<le> 1 \<and> length matriculaMatch \<le> 1 \<longrightarrow>
            ClienteMatricula invoice = [])"
proof -
  from assms(1) obtain r1 r2 r3 r4 r5 r6 where
    c2: "Compile (cfgClienteMatricula regexCfg) = Some r2" and
    c3: "Compile matricula_pattern = Some r3" and
    inv: "invoice = extractFields r1 r2 r3 r4 r5 r6 text"
    by (rule parseInvoice_Inr)
  from c2 assms(2) have r2: "r2 = reCliente" by simp
  from c3 assms(3) have r3: "r3 = reMatricula" by simp
  show ?thesis
    unfolding inv r2 r3 ClienteMatricula_extractFields assms(4,5)
    by auto
qed

lemma parseInvoice_example_no_client:
  "parseInvoice example_Compile example_text (example_config\<lparr>cfgClienteMatricula := []\<rparr>) =
     Inr \<lparr>Fatura = ''FT 2023/1001'', ClienteMatricula = ''AB-12-CD'',
          DataInicio = ''2023-10-26'', Valor = ''1234,56'', PrazoMeses = ''12''\<rparr>"
  by code_simp

theorem parseInvoice_ClienteMatricula_witness:
  "FindStringSubmatch (example_regexp ''Cliente (.*?) Data'') example_text
       = [''Cliente ACME Data'', ''ACME'']
   \<and> FindStringSubmatch (example_regexp matricula_pattern) example_text
       = [''matricula AB-12-CD'', ''AB-12-CD'']
   \<and> length (FindStringSubmatch (example_regexp []) example_text) = 1
   \<and> parseInvoice example_Compile example_text example_config =
       Inr \<lparr>Fatura = ''FT 2023/1001'', ClienteMatricula = ''ACME/AB-12-CD'',
            DataInicio = ''2023-10-26'', Valor = ''1234,56'', PrazoMeses = ''12''\<rparr>
   \<and> ClienteMatricula \<lparr>Fatura = ''FT 2023/1001'', ClienteMatricula = ''ACME/AB-12-CD'',
            DataInicio = ''2023-10-26'', Valor = ''1234,56'', PrazoMeses = ''12''\<rparr>
       = ''ACME'' @ ''/'' @ ''AB-12-CD''
   \<and> parseInvoice example_Compile example_text (example_config\<lparr>cfgClienteMatricula := []\<rparr>) =
       Inr \<lparr>Fatura = ''FT 2023/1001'', ClienteMatricula = ''AB-12-CD'',
            DataInicio = ''2023-10-26'', Valor = ''1234,56'', PrazoMeses = ''12''\<rparr>
   \<and> ClienteMatricula \<lparr>Fatura = ''FT 2023/1001'', ClienteMatricula = ''AB-12-CD'',
            DataInicio = ''2023-10-26'', Valor = ''1234,56'', PrazoMeses = ''12''\<rparr>
       = ''AB-12-CD''"
proof -
  let ?c = "example_regexp ''Cliente (.*?) Data''"
  let ?m = "example_regexp matricula_pattern"
  let ?e = "example_regexp []"
  have cc: "example_Compile (cfgClienteMatricula example_config) = Some ?c"
    by (simp add: example_config_def example_Compile_def)
  have ce: "example_Compile (cfgClienteMatricula (example_config\<lparr>cfgClienteMatricula := []\<rparr>))
      = Some ?e"
    by (simp add: example_Compile_def)
  have cm: "example_Compile matricula_pattern = Some ?m"
    by (simp add: example_Compile_def matricula_pattern_def)
  have mc: "FindStringSubmatch ?c example_text = [''Cliente ACME Data'', ''ACME'']"
    by code_simp
  have mm: "FindStringSubmatch ?m example_text = [''matricula AB-12-CD'', ''AB-12-CD'']"
    by code_simp
  have me: "length (FindStringSubmatch ?e example_text) = 1"
    by (simp add: FindStringSubmatch_def example_regexp_def)
  note both = parseInvoice_ClienteMatricula [OF parseInvoice_example cc cm refl refl]
  note only = parseInvoice_ClienteMatricula [OF parseInvoice_example_no_client ce cm refl refl]
  have b: "ClienteMatricula \<lparr>Fatura = ''FT 2023/1001'', ClienteMatricula = ''ACME/AB-12-CD'',
            DataInicio = ''2023-10-26'', Valor = ''1234,56'', PrazoMeses = ''12''\<rparr>
       = FindStringSubmatch ?c example_text ! 1 @ ''/'' @ FindStringSubmatch ?m example_text ! 1"
    using both [THEN conjunct1] by (rule mp) (simp add: mc mm)
  have o: "ClienteMatricula \<lparr>Fatura = ''FT 2023/1001'', ClienteMatricula = ''AB-12-CD'',
            DataInicio = ''2023-10-26'', Valor = ''1234,56'', PrazoMeses = ''12''\<rparr>
       = FindStringSubmatch ?m example_text ! 1"
    using only [THEN conjunct2, THEN conjunct2, THEN conjunct1] by (rule mp) (simp add: me mm)
  show ?thesis
    using b o mc mm me parseInvoice_example parseInvoice_example_no_client by simp
qed

text \<open>
  C10: every field is taken from the leftmost match of its pattern. Two regular-expression
  libraries that compile the same patterns and agree on the leftmost match of every
  compiled pattern in the text give the same result, whatever later matches they report.
\<close>

theorem parseInvoice_leftmost:
  assumes "\<forall>pattern. rel_option (\<lambda>re re'. take 1 (re text) = take 1 (re' text))
              (Compile pattern) (Compile' pattern)"
  shows "parseInvoice Compile' text regexCfg = parseInvoice Compile text regexCfg"
proof -
  have first: "FindStringSubmatch re' text = FindStringSubmatch re text"
    if "take 1 (re text) = take 1 (re' text)" for re re' :: regexp
    using that by (cases "re text"; cases "re' text") (simp_all add: FindStringSubmatch_def)
  have fields: "extractFields a' b' c' d' e' f' text = extractFields a b c d e f text"
    if "take 1 (a text) = take 1 (a' text)" "take 1 (b text) = take 1 (b' text)"
      "take 1 (c text) = take 1 (c' text)" "take 1 (d text) = take 1 (d' text)"
      "take 1 (e text) = take 1 (e' text)" "take 1 (f text) = take 1 (f' text)"
    for a a' b b' c c' d d' e e' f f' :: regexp
    unfolding extractFields_def
    by (simp only: first [of a a', OF that(1)] first [of b b', OF that(2)]
          first [of c c', OF that(3)] first [of d d', OF that(4)]
          first [of e e', OF that(5)] first [of f f', OF that(6)])
  have rel: "rel_option (\<lambda>re re'. take 1 (re text) = take 1 (re' text)) (Compile p) (Compile' p)"
    for p using assms by (rule spec)
  have level: "(case MustCompile Compile' p of Inl e \<Rightarrow> Inl e | Inr re \<Rightarrow> k' re)
      = (case MustCompile Compile p of Inl e \<Rightarrow> Inl e | Inr re \<Rightarrow> k re)"
    if "\<And>re re'. take 1 (re text) = take 1 (re' text) \<Longrightarrow> k' re' = k re"
    for p and k k' :: "regexp \<Rightarrow> panic + Invoice"
  proof (cases "Compile p")
    case None
    with rel [of p] have "Compile' p = None" by (cases "Compile' p") simp_all
    with None show ?thesis by (simp add: MustCompile_def)
  next
    case (Some re)
    with rel [of p] obtain re' where c': "Compile' p = Some re'"
      and agree: "take 1 (re text) = take 1 (re' text)"
      by (cases "Compile' p") simp_all
    from agree have "k' re' = k re" by (rule that)
    with Some c' show ?thesis by (simp add: MustCompile_def)
  qed
  show ?thesis
    unfolding parseInvoice_def
    by (intro level arg_cong [where f = Inr] fields)
qed

theorem parseInvoice_leftmost_witness:
  "example_regexp ''Total ([0-9.,]+)'' example_text
     = [[''Total 1.234,56'', ''1.234,56''], [''Total 9,99'', ''9,99'']]
   \<and> parseInvoice (\<lambda>pattern. map_option (\<lambda>re text. take 1 (re text)) (example_Compile pattern))
       example_text example_config
     = Inr \<lparr>Fatura = ''FT 2023/1001'', ClienteMatricula = ''ACME/AB-12-CD'',
          DataInicio = ''2023-10-26'', Valor = ''1234,56'', PrazoMeses = ''12''\<rparr>"
proof -
  have two: "example_regexp ''Total ([0-9.,]+)'' example_text
     = [[''Total 1.234,56'', ''1.234,56''], [''Total 9,99'', ''9,99'']]"
    by code_simp
  have agree: "\<forall>pattern. rel_option (\<lambda>re re'. take 1 (re example_text) = take 1 (re' example_text))
      (example_Compile pattern)
      (map_option (\<lambda>re text. take 1 (re text)) (example_Compile pattern))"
    by (simp add: example_Compile_def)
  have "parseInvoice (\<lambda>pattern. map_option (\<lambda>re text. take 1 (re text)) (example_Compile pattern))
       example_text example_config
     = parseInvoice example_Compile example_text example_config"
    using agree by (rule parseInvoice_leftmost)
  with two show ?thesis by (simp only: parseInvoice_example simp_thms)
qed

section \<open>Properties of the rule set loader\<close>

lemma parseInvoice_Inl_iff:
  "(\<exists>e. parseInvoice Compile text regexCfg = Inl e) \<longleftrightarrow>
     (Compile (cfgFatura regexCfg) = None \<or> Compile (cfgClienteMatricula regexCfg) = None
      \<or> Compile matricula_pattern = None \<or> Compile (cfgDataInicio regexCfg) = None
      \<or> Compile (cfgValor regexCfg) = None \<or> Compile (cfgPrazoMeses regexCfg) = None)"
  unfolding parseInvoice_def MustCompile_def
  by (auto split: option.splits)

lemma getField_setField_other: "f \<noteq> f' \<Longrightarrow> getField f (setField f' v config) = getField f config"
  by (cases f; cases f') simp_all

lemma decodeObject_wellTyped:
  "wellTyped members \<Longrightarrow> snd (decodeObject members config saved) = saved"
proof (induction members arbitrary: config saved)
  case Nil
  show ?case by simp
next
  case (Cons member members)
  obtain key v where member: "member = (key, v)" by (cases member)
  from Cons.prems member have rest: "wellTyped members"
    and here: "findField key = None \<or> isStringOrNull v"
    by (simp_all add: wellTyped_def)
  note IH = Cons.IH [OF rest]
  show ?case
  proof (cases "findField key")
    case None
    with IH member show ?thesis by simp
  next
    case (Some f)
    with here have "isStringOrNull v" by simp
    then show ?thesis
      using Some IH member by (cases v) simp_all
  qed
qed

lemma decodeObject_omits:
  "omits members f \<Longrightarrow> getField f (fst (decodeObject members config saved)) = getField f config"
proof (induction members arbitrary: config saved)
  case Nil
  show ?case by simp
next
  case (Cons member members)
  obtain key v where member: "member = (key, v)" by (cases member)
  from Cons.prems member have rest: "omits members f" and here: "findField key \<noteq> Some f"
    by (simp_all add: omits_def)
  note IH = Cons.IH [OF rest]
  show ?case
  proof (cases "findField key")
    case None
    with IH member show ?thesis by simp
  next
    case (Some f')
    with here have "f \<noteq> f'" by auto
    then show ?thesis
      using Some IH member by (cases v) (simp_all add: getField_setField_other)
  qed
qed

lemma loadRegexConfig_object:
  assumes "ReadFile filePath = Inr data" and "decodeJSON data = Some (JObject members)"
    and "wellTyped members"
  shows "loadRegexConfig ReadFile decodeJSON filePath =
     Inr (fst (decodeObject members
        \<lparr>cfgFatura = [], cfgClienteMatricula = [], cfgDataInicio = [], cfgValor = [],
         cfgPrazoMeses = []\<rparr> None))"
proof -
  let ?zero = "\<lparr>cfgFatura = [], cfgClienteMatricula = [], cfgDataInicio = [], cfgValor = [],
         cfgPrazoMeses = []\<rparr>"
  obtain config' saved where d: "decodeObject members ?zero None = (config', saved)"
    by (cases "decodeObject members ?zero None")
  have "snd (decodeObject members ?zero None) = None"
    using assms(3) by (rule decodeObject_wellTyped)
  with d have "saved = None" by simp
  with d assms(2) have "Unmarshal decodeJSON data ?zero = Inr config'"
    by (simp add: Unmarshal_def)
  with d assms(1) show ?thesis
    by (simp add: loadRegexConfig_def)
qed

lemma no_groups:
  assumes "\<forall>m\<in>set (re text). length m = 1"
  shows "length (FindStringSubmatch re text) \<le> 1"
  using assms by (cases "re text") (simp_all add: FindStringSubmatch_def)


lemma load_template:
  "loadRegexConfig example_ReadFile example_decodeJSON ''template.json''
     = Inr \<lparr>cfgFatura = [], cfgClienteMatricula = [], cfgDataInicio = [], cfgValor = ''('',
            cfgPrazoMeses = []\<rparr>"
  by code_simp

text \<open>
  C3, as the specification states it: an invalid pattern is rejected when the rule set
  is loaded, before any job runs. It is not: the rule set with the amount pattern \<open>(\<close>
  is loaded without error, and the panic occurs in the worker that has received
  \<open>a.pdf\<close> and read its text, while it extracts the fields of that document.
\<close>

theorem invalid_pattern_counterexample:
  "example_Compile ''('' = None
   \<and> loadRegexConfig example_ReadFile example_decodeJSON ''template.json''
     = Inr \<lparr>cfgFatura = [], cfgClienteMatricula = [], cfgDataInicio = [], cfgValor = ''('',
            cfgPrazoMeses = []\<rparr>
   \<and> readPdf example_extern ''a.pdf'' = Inr (Inr example_text)
   \<and> run example_extern
        \<lparr>cfgFatura = [], cfgClienteMatricula = [], cfgDataInicio = [], cfgValor = ''('',
         cfgPrazoMeses = []\<rparr>
        [MainThread, Worker 0, Worker 0] (start 1 [''a.pdf''])
     = \<lparr>files_left = [], jobs = [], jobs_closed = False, results = [], totalProcessed = 0,
        totalErrors = 0, workers = [Panicked],
        panicked = [MustCompilePanic ''(''], joined = False, claimed = [''a.pdf'']\<rparr>"
  by code_simp

text \<open>
  C3, amended: loading the rule set compiles no pattern; a file that is readable and
  that \<open>json.Unmarshal\<close> accepts is loaded without error, whatever its pattern strings
  are. A pattern that does not compile surfaces in \<open>parseInvoice\<close>: it panics on every
  document text, so that every worker that holds a job whose text was read panics.
\<close>

theorem invalid_pattern_surfaces_in_parseInvoice:
  assumes "ReadFile filePath = Inr data"
    and "decodeJSON data = Some (JObject members)"
    and "wellTyped members"
  shows "\<exists>regexCfg. loadRegexConfig ReadFile decodeJSON filePath = Inr regexCfg
    \<and> (\<forall>ext text.
          regexp_Compile ext (cfgFatura regexCfg) = None
          \<or> regexp_Compile ext (cfgClienteMatricula regexCfg) = None
          \<or> regexp_Compile ext matricula_pattern = None
          \<or> regexp_Compile ext (cfgDataInicio regexCfg) = None
          \<or> regexp_Compile ext (cfgValor regexCfg) = None
          \<or> regexp_Compile ext (cfgPrazoMeses regexCfg) = None
          \<longrightarrow> (\<exists>p. parseInvoice (regexp_Compile ext) text regexCfg = Inl p)
            \<and> (\<forall>s i job. i < length (workers s) \<longrightarrow> workers s ! i = Holding job \<longrightarrow>
                  readPdf ext job = Inr (Inr text) \<longrightarrow>
                  (\<exists>p. step ext regexCfg (Worker i) s
                     = Some (s\<lparr>panicked := panicked s @ [p],
                               workers := (workers s)[i := Panicked]\<rparr>))))"
proof -
  let ?zero = "\<lparr>cfgFatura = [], cfgClienteMatricula = [], cfgDataInicio = [], cfgValor = [],
         cfgPrazoMeses = []\<rparr>"
  let ?cfg = "fst (decodeObject members ?zero None)"
  have load: "loadRegexConfig ReadFile decodeJSON filePath = Inr ?cfg"
    using assms by (rule loadRegexConfig_object)
  have "(\<exists>p. parseInvoice (regexp_Compile ext) content ?cfg = Inl p)
      \<and> (\<forall>s i job. i < length (workers s) \<longrightarrow> workers s ! i = Holding job \<longrightarrow>
            readPdf ext job = Inr (Inr content) \<longrightarrow>
            (\<exists>p. step ext ?cfg (Worker i) s
               = Some (s\<lparr>panicked := panicked s @ [p],
                         workers := (workers s)[i := Panicked]\<rparr>)))"
    if bad: "regexp_Compile ext (cfgFatura ?cfg) = None
          \<or> regexp_Compile ext (cfgClienteMatricula ?cfg) = None
          \<or> regexp_Compile ext matricula_pattern = None
          \<or> regexp_Compile ext (cfgDataInicio ?cfg) = None
          \<or> regexp_Compile ext (cfgValor ?cfg) = None
          \<or> regexp_Compile ext (cfgPrazoMeses ?cfg) = None"
    for ext :: "'r extern" and content
  proof -
    from bad obtain p where p: "parseInvoice (regexp_Compile ext) content ?cfg = Inl p"
      using parseInvoice_Inl_iff [of "regexp_Compile ext" content ?cfg] by blast
    have "step ext ?cfg (Worker i) s
        = Some (s\<lparr>panicked := panicked s @ [p], workers := (workers s)[i := Panicked]\<rparr>)"
      if "i < length (workers s)" "workers s ! i = Holding job"
        "readPdf ext job = Inr (Inr content)" for s i job
      using that p by (simp add: step_def worker_step_def)
    with p show ?thesis by blast
  qed
  with load show ?thesis by blast
qed

theorem invalid_pattern_surfaces_in_parseInvoice_witness:
  "example_ReadFile ''template.json'' = Inr example_template
   \<and> example_decodeJSON example_template = Some (JObject [(''valor'', JString ''('')])
   \<and> wellTyped [(''valor'', JString ''('')]
   \<and> regexp_Compile example_extern ''('' = None
   \<and> (\<exists>p. parseInvoice (regexp_Compile example_extern) example_text
          \<lparr>cfgFatura = [], cfgClienteMatricula = [], cfgDataInicio = [], cfgValor = ''('',
           cfgPrazoMeses = []\<rparr> = Inl p)"
proof -
  let ?cfg = "\<lparr>cfgFatura = [], cfgClienteMatricula = [], cfgDataInicio = [], cfgValor = ''('',
           cfgPrazoMeses = []\<rparr>"
  have r: "example_ReadFile ''template.json'' = Inr example_template" by code_simp
  have d: "example_decodeJSON example_template = Some (JObject [(''valor'', JString ''('')])"
    by code_simp
  have w: "wellTyped [(''valor'', JString ''('')]" by code_simp
  have c: "regexp_Compile example_extern ''('' = None" by code_simp
  from invalid_pattern_surfaces_in_parseInvoice
    [of example_ReadFile "''template.json''" example_template example_decodeJSON
       "[(''valor'', JString ''('')]", OF r d w]
  obtain regexCfg where
    load: "loadRegexConfig example_ReadFile example_decodeJSON ''template.json'' = Inr regexCfg"
    and bad: "\<And>(ext :: string extern) text.
          regexp_Compile ext (cfgFatura regexCfg) = None
          \<or> regexp_Compile ext (cfgClienteMatricula regexCfg) = None
          \<or> regexp_Compile ext matricula_pattern = None
          \<or> regexp_Compile ext (cfgDataInicio regexCfg) = None
          \<or> regexp_Compile ext (cfgValor regexCfg) = None
          \<or> regexp_Compile ext (cfgPrazoMeses regexCfg) = None
          \<Longrightarrow> \<exists>p. parseInvoice (regexp_Compile ext) text regexCfg = Inl p"
    by blast
  from load load_template have cfg: "regexCfg = ?cfg" by simp
  have "\<exists>p. parseInvoice (regexp_Compile example_extern) example_text regexCfg = Inl p"
    by (rule bad) (simp add: cfg c)
  with r d w c show ?thesis by (simp only: cfg simp_thms)
qed


lemma load_empty:
  "loadRegexConfig example_ReadFile example_decodeJSON ''empty.json''
     = Inr \<lparr>cfgFatura = [], cfgClienteMatricula = [], cfgDataInicio = [], cfgValor = [],
            cfgPrazoMeses = []\<rparr>"
  by code_simp

lemma parseInvoice_example_empty_config:
  "parseInvoice example_Compile example_text
     \<lparr>cfgFatura = [], cfgClienteMatricula = [], cfgDataInicio = [], cfgValor = [],
      cfgPrazoMeses = []\<rparr>
   = Inr \<lparr>Fatura = [], ClienteMatricula = ''AB-12-CD'', DataInicio = [], Valor = [],
          PrazoMeses = []\<rparr>"
  by code_simp

text \<open>
  C9, as stated: the field of an omitted pattern is always empty. For the client
  reference it is not: the empty object omits \<open>cliente_matricula\<close> and is loaded
  without error, and the client reference of \<open>example_text\<close> is then the registration
  code that the fixed pattern finds.
\<close>

theorem omitted_cliente_matricula_counterexample:
  "example_decodeJSON ''{}'' = Some (JObject [])
   \<and> omits [] Field_ClienteMatricula
   \<and> loadRegexConfig example_ReadFile example_decodeJSON ''empty.json''
     = Inr \<lparr>cfgFatura = [], cfgClienteMatricula = [], cfgDataInicio = [], cfgValor = [],
            cfgPrazoMeses = []\<rparr>
   \<and> parseInvoice example_Compile example_text
        \<lparr>cfgFatura = [], cfgClienteMatricula = [], cfgDataInicio = [], cfgValor = [],
         cfgPrazoMeses = []\<rparr>
     = Inr \<lparr>Fatura = [], ClienteMatricula = ''AB-12-CD'', DataInicio = [], Valor = [],
            PrazoMeses = []\<rparr>
   \<and> ClienteMatricula \<lparr>Fatura = [], ClienteMatricula = ''AB-12-CD'', DataInicio = [],
        Valor = [], PrazoMeses = []\<rparr> \<noteq> []"
  by code_simp

text \<open>
  C9, amended: a rule set file that is a JSON object whose members naming a pattern are
  strings is loaded without error, and every pattern that the object omits is the empty
  pattern. Where the empty pattern compiles to an expression whose matches have no
  capture group, an omitted \<open>fatura\<close>, \<open>data_inicio\<close>, \<open>valor\<close> or
  \<open>prazo_meses\<close> leaves its field empty in every invoice, and an omitted
  \<open>cliente_matricula\<close> leaves in the client reference the registration code that the
  fixed pattern captures, or nothing when it captures none. Omitted patterns cause no
  panic: \<open>parseInvoice\<close> returns an invoice when the empty pattern, the fixed pattern
  and the patterns that are present compile.
\<close>

theorem omitted_pattern_keys:
  assumes "ReadFile filePath = Inr data"
    and "decodeJSON data = Some (JObject members)"
    and "wellTyped members"
  shows "\<exists>regexCfg. loadRegexConfig ReadFile decodeJSON filePath = Inr regexCfg
    \<and> (\<forall>f. omits members f \<longrightarrow> getField f regexCfg = [])
    \<and> (\<forall>Compile reEmpty content invoice.
          Compile [] = Some reEmpty \<longrightarrow> (\<forall>m\<in>set (reEmpty content). length m = 1) \<longrightarrow>
          parseInvoice Compile content regexCfg = Inr invoice \<longrightarrow>
            (omits members Field_Fatura \<longrightarrow> Fatura invoice = [])
          \<and> (omits members Field_DataInicio \<longrightarrow> DataInicio invoice = [])
          \<and> (omits members Field_Valor \<longrightarrow> Valor invoice = [])
          \<and> (omits members Field_PrazoMeses \<longrightarrow> PrazoMeses invoice = [])
          \<and> (omits members Field_ClienteMatricula \<longrightarrow>
               (\<forall>reMatricula. Compile matricula_pattern = Some reMatricula \<longrightarrow>
                  ClienteMatricula invoice =
                    (if 1 < length (FindStringSubmatch reMatricula content)
                     then FindStringSubmatch reMatricula content ! 1 else []))))
    \<and> (\<forall>Compile content.
          Compile [] \<noteq> None \<longrightarrow> Compile matricula_pattern \<noteq> None \<longrightarrow>
          (\<forall>f. \<not> omits members f \<longrightarrow> Compile (getField f regexCfg) \<noteq> None) \<longrightarrow>
          (\<exists>invoice. parseInvoice Compile content regexCfg = Inr invoice))"
proof -
  let ?zero = "\<lparr>cfgFatura = [], cfgClienteMatricula = [], cfgDataInicio = [], cfgValor = [],
         cfgPrazoMeses = []\<rparr>"
  let ?cfg = "fst (decodeObject members ?zero None)"
  have load: "loadRegexConfig ReadFile decodeJSON filePath = Inr ?cfg"
    using assms by (rule loadRegexConfig_object)
  have omitted: "getField f ?cfg = []" if "omits members f" for f
  proof -
    have "getField f ?cfg = getField f ?zero" using that by (rule decodeObject_omits)
    then show ?thesis by (cases f) simp_all
  qed
  have fields: "(omits members Field_Fatura \<longrightarrow> Fatura invoice = [])
          \<and> (omits members Field_DataInicio \<longrightarrow> DataInicio invoice = [])
          \<and> (omits members Field_Valor \<longrightarrow> Valor invoice = [])
          \<and> (omits members Field_PrazoMeses \<longrightarrow> PrazoMeses invoice = [])
          \<and> (omits members Field_ClienteMatricula \<longrightarrow>
               (\<forall>reMatricula. Compile matricula_pattern = Some reMatricula \<longrightarrow>
                  ClienteMatricula invoice =
                    (if 1 < length (FindStringSubmatch reMatricula content)
                     then FindStringSubmatch reMatricula content ! 1 else [])))"
    if empty: "Compile [] = Some reEmpty" and groups: "\<forall>m\<in>set (reEmpty content). length m = 1"
      and parsed: "parseInvoice Compile content ?cfg = Inr invoice"
    for Compile reEmpty content invoice
  proof -
    from parsed obtain r1 r2 r3 r4 r5 r6 where
      c1: "Compile (cfgFatura ?cfg) = Some r1" and
      c2: "Compile (cfgClienteMatricula ?cfg) = Some r2" and
      c3: "Compile matricula_pattern = Some r3" and
      c4: "Compile (cfgDataInicio ?cfg) = Some r4" and
      c5: "Compile (cfgValor ?cfg) = Some r5" and
      c6: "Compile (cfgPrazoMeses ?cfg) = Some r6" and
      inv: "invoice = extractFields r1 r2 r3 r4 r5 r6 content"
      by (rule parseInvoice_Inr)
    have short: "length (FindStringSubmatch reEmpty content) \<le> 1"
      using groups by (rule no_groups)
    have "Fatura invoice = []" if "omits members Field_Fatura"
    proof -
      from omitted [OF that] c1 empty have "r1 = reEmpty" by simp
      with short show ?thesis by (simp add: inv Fatura_extractFields)
    qed
    moreover have "DataInicio invoice = []" if "omits members Field_DataInicio"
    proof -
      from omitted [OF that] c4 empty have "r4 = reEmpty" by simp
      with short show ?thesis by (simp add: inv DataInicio_extractFields)
    qed
    moreover have "Valor invoice = []" if "omits members Field_Valor"
    proof -
      from omitted [OF that] c5 empty have "r5 = reEmpty" by simp
      with short show ?thesis by (simp add: inv Valor_extractFields)
    qed
    moreover have "PrazoMeses invoice = []" if "omits members Field_PrazoMeses"
    proof -
      from omitted [OF that] c6 empty have "r6 = reEmpty" by simp
      with short show ?thesis by (simp add: inv PrazoMeses_extractFields)
    qed
    moreover have "ClienteMatricula invoice =
        (if 1 < length (FindStringSubmatch reMatricula content)
         then FindStringSubmatch reMatricula content ! 1 else [])"
      if "omits members Field_ClienteMatricula" "Compile matricula_pattern = Some reMatricula"
      for reMatricula
    proof -
      from omitted [OF that(1)] c2 empty have "r2 = reEmpty" by simp
      moreover from that(2) c3 have "r3 = reMatricula" by simp
      ultimately show ?thesis using short by (simp add: inv ClienteMatricula_extractFields)
    qed
    ultimately show ?thesis by blast
  qed
  have returns: "\<exists>invoice. parseInvoice Compile content ?cfg = Inr invoice"
    if e: "Compile [] \<noteq> None" and m: "Compile matricula_pattern \<noteq> None"
      and present: "\<forall>f. \<not> omits members f \<longrightarrow> Compile (getField f ?cfg) \<noteq> None"
    for Compile content
  proof -
    have ok: "Compile (getField f ?cfg) \<noteq> None" for f
      using omitted [of f] e present by (cases "omits members f") auto
    have "\<not> (\<exists>e. parseInvoice Compile content ?cfg = Inl e)"
      unfolding parseInvoice_Inl_iff
      using ok [of Field_Fatura] ok [of Field_ClienteMatricula] ok [of Field_DataInicio]
        ok [of Field_Valor] ok [of Field_PrazoMeses] m
      by simp
    then show ?thesis
      by (cases "parseInvoice Compile content ?cfg") auto
  qed
  show ?thesis
    using load omitted fields returns by blast
qed


theorem omitted_pattern_keys_witness:
  "example_ReadFile ''empty.json'' = Inr ''{}''
   \<and> example_decodeJSON ''{}'' = Some (JObject [])
   \<and> wellTyped []
   \<and> omits [] Field_Valor
   \<and> example_Compile [] = Some (example_regexp [])
   \<and> list_all (\<lambda>m. length m = 1) (example_regexp [] example_text)
   \<and> parseInvoice example_Compile example_text
        \<lparr>cfgFatura = [], cfgClienteMatricula = [], cfgDataInicio = [], cfgValor = [],
         cfgPrazoMeses = []\<rparr>
     = Inr \<lparr>Fatura = [], ClienteMatricula = ''AB-12-CD'', DataInicio = [], Valor = [],
            PrazoMeses = []\<rparr>
   \<and> Valor \<lparr>Fatura = [], ClienteMatricula = ''AB-12-CD'', DataInicio = [], Valor = [],
        PrazoMeses = []\<rparr> = []"
proof -
  let ?zero = "\<lparr>cfgFatura = [], cfgClienteMatricula = [], cfgDataInicio = [], cfgValor = [],
         cfgPrazoMeses = []\<rparr>"
  let ?inv = "\<lparr>Fatura = [], ClienteMatricula = ''AB-12-CD'', DataInicio = [], Valor = [],
        PrazoMeses = []\<rparr>"
  have r: "example_ReadFile ''empty.json'' = Inr ''{}''" by code_simp
  have d: "example_decodeJSON ''{}'' = Some (JObject [])" by code_simp
  have w: "wellTyped []" by (simp add: wellTyped_def)
  have om: "omits [] Field_Valor" by (simp add: omits_def)
  have e: "example_Compile [] = Some (example_regexp [])" by (simp add: example_Compile_def)
  have g: "\<forall>m\<in>set (example_regexp [] example_text). length m = 1"
    by (simp add: example_regexp_def)
  from omitted_pattern_keys
    [of example_ReadFile "''empty.json''" "''{}''" example_decodeJSON "[]", OF r d w]
  obtain regexCfg where
    load: "loadRegexConfig example_ReadFile example_decodeJSON ''empty.json'' = Inr regexCfg"
    and fields: "\<forall>Compile reEmpty content invoice.
          Compile [] = Some reEmpty \<longrightarrow> (\<forall>m\<in>set (reEmpty content). length m = 1) \<longrightarrow>
          parseInvoice Compile content regexCfg = Inr invoice \<longrightarrow>
            (omits [] Field_Fatura \<longrightarrow> Fatura invoice = [])
          \<and> (omits [] Field_DataInicio \<longrightarrow> DataInicio invoice = [])
          \<and> (omits [] Field_Valor \<longrightarrow> Valor invoice = [])
          \<and> (omits [] Field_PrazoMeses \<longrightarrow> PrazoMeses invoice = [])
          \<and> (omits [] Field_ClienteMatricula \<longrightarrow>
               (\<forall>reMatricula. Compile matricula_pattern = Some reMatricula \<longrightarrow>
                  ClienteMatricula invoice =
                    (if 1 < length (FindStringSubmatch reMatricula content)
                     then FindStringSubmatch reMatricula content ! 1 else [])))"
    by blast
  from load load_empty have cfg: "regexCfg = ?zero" by simp
  have p: "parseInvoice example_Compile example_text regexCfg = Inr ?inv"
    unfolding cfg by (rule parseInvoice_example_empty_config)
  from fields e g p have "omits [] Field_Valor \<longrightarrow> Valor ?inv = []" by blast
  with om have "Valor ?inv = []" by (rule rev_mp)
  moreover have "list_all (\<lambda>m. length m = 1) (example_regexp [] example_text)"
    using g by (simp only: list_all_iff)
  ultimately show ?thesis
    using r d w om e parseInvoice_example_empty_config by (simp only: simp_thms)
qed

section \<open>Properties of the worker pool\<close>

subsection \<open>Sums over the workers, and the counters\<close>









subsection \<open>The steps, case by case\<close>




subsection \<open>The invariant\<close>














subsection \<open>The invariant is kept by every step\<close>






















subsection \<open>Panics\<close>









subsection \<open>Progress\<close>





subsection \<open>Claims about the pool\<close>

text \<open>
  A panic of the PDF library has the same effect as a panic of \<open>parseInvoice\<close>: with
  the patterns of the example, which compile, the only worker receives \<open>broken.pdf\<close>
  and panics in \<open>readPdf\<close>; the main goroutine passes the barrier, and both counters
  are 0 for one file.
\<close>

lemma example_run_broken:
  "run example_extern example_config
     [MainThread, MainThread, Worker 0, Worker 0, MainThread] (start 1 [''broken.pdf''])
   = \<lparr>files_left = [], jobs = [], jobs_closed = True, results = [], totalProcessed = 0,
      totalErrors = 0, workers = [Panicked], panicked = [PdfPanic ''malformed PDF''],
      joined = True, claimed = [''broken.pdf'']\<rparr>"
  by code_simp











end
